theory Spec2Isabelle
  imports Main
begin

section \<open>JavaScript numbers\<close>

text \<open>
  A JavaScript Number is an IEEE 754 binary64 value. \<open>Finite s m e\<close> denotes
  \<open>(-1)\<^sup>s * m * 2\<^sup>e\<close> (\<open>s = True\<close> is the negative sign). The canonical
  representation of a finite double has \<open>2\<^sup>5\<^sup>2 \<le> m < 2\<^sup>5\<^sup>3\<close> and
  \<open>-1074 \<le> e \<le> 971\<close> (normal), or \<open>m < 2\<^sup>5\<^sup>2\<close> and \<open>e = -1074\<close>
  (subnormal and the two zeros). Every operation below rounds its exact result to
  the nearest canonical double, ties to even, and overflows to an infinity.
\<close>

datatype jsnum = NaN | Infinity bool | Finite bool nat int

fun bitlen :: "nat \<Rightarrow> nat" where
  "bitlen n = (if n = 0 then 0 else Suc (bitlen (n div 2)))"

declare bitlen.simps [simp del]

definition round_double :: "bool \<Rightarrow> nat \<Rightarrow> int \<Rightarrow> jsnum" where
  "round_double s m e =
     (if m = 0 then Finite s 0 (- 1074)
      else
        let k = max (int (bitlen m) - 53) (- 1074 - e) in
        if k \<le> 0 then
          (if e + k > 971 then Infinity s else Finite s (m * 2 ^ nat (- k)) (e + k))
        else
          let q = m div 2 ^ nat k;
              r = m mod 2 ^ nat k;
              h = 2 ^ nat (k - 1);
              q' = (if r > h \<or> (r = h \<and> odd q) then q + 1 else q);
              q'' = (if q' = 2 ^ 53 then 2 ^ 52 else q');
              e' = (if q' = 2 ^ 53 then e + k + 1 else e + k)
          in if e' > 971 then Infinity s else Finite s q'' e')"

definition num_of_int :: "int \<Rightarrow> jsnum" where
  "num_of_int i = round_double (i < 0) (nat \<bar>i\<bar>) 0"

text \<open>The exact integer \<open>(-1)\<^sup>s * m * 2\<^sup>(\<^sup>e\<^sup>-\<^sup>g\<^sup>)\<close>, for \<open>g \<le> e\<close>.\<close>

definition scaled :: "int \<Rightarrow> bool \<Rightarrow> nat \<Rightarrow> int \<Rightarrow> int" where
  "scaled g s m e = (if s then - 1 else 1) * int m * 2 ^ nat (e - g)"

fun num_neg :: "jsnum \<Rightarrow> jsnum" where
  "num_neg NaN = NaN"
| "num_neg (Infinity s) = Infinity (\<not> s)"
| "num_neg (Finite s m e) = Finite (\<not> s) m e"

fun num_add :: "jsnum \<Rightarrow> jsnum \<Rightarrow> jsnum" where
  "num_add NaN _ = NaN"
| "num_add _ NaN = NaN"
| "num_add (Infinity s) (Infinity t) = (if s = t then Infinity s else NaN)"
| "num_add (Infinity s) (Finite _ _ _) = Infinity s"
| "num_add (Finite _ _ _) (Infinity t) = Infinity t"
| "num_add (Finite s m e) (Finite t n f) =
     (let g = min e f;
          v = scaled g s m e + scaled g t n f
      in if v = 0 then Finite (s \<and> t) 0 (- 1074)
         else round_double (v < 0) (nat \<bar>v\<bar>) g)"

definition num_sub :: "jsnum \<Rightarrow> jsnum \<Rightarrow> jsnum" where
  "num_sub a b = num_add a (num_neg b)"

fun num_mul :: "jsnum \<Rightarrow> jsnum \<Rightarrow> jsnum" where
  "num_mul NaN _ = NaN"
| "num_mul _ NaN = NaN"
| "num_mul (Infinity s) (Infinity t) = Infinity (s \<noteq> t)"
| "num_mul (Infinity s) (Finite t n f) = (if n = 0 then NaN else Infinity (s \<noteq> t))"
| "num_mul (Finite s m e) (Infinity t) = (if m = 0 then NaN else Infinity (s \<noteq> t))"
| "num_mul (Finite s m e) (Finite t n f) = round_double (s \<noteq> t) (m * n) (e + f)"

text \<open>\<open>a < b\<close> on Numbers: false as soon as one side is \<open>NaN\<close>; the two zeros are equal.\<close>

fun num_lt :: "jsnum \<Rightarrow> jsnum \<Rightarrow> bool" where
  "num_lt NaN _ = False"
| "num_lt _ NaN = False"
| "num_lt (Infinity s) (Infinity t) = (s \<and> \<not> t)"
| "num_lt (Infinity s) (Finite _ _ _) = s"
| "num_lt (Finite _ _ _) (Infinity t) = (\<not> t)"
| "num_lt (Finite s m e) (Finite t n f) =
     (let g = min e f in scaled g s m e < scaled g t n f)"

definition num_gt :: "jsnum \<Rightarrow> jsnum \<Rightarrow> bool" where
  "num_gt a b = num_lt b a"

fun num_le :: "jsnum \<Rightarrow> jsnum \<Rightarrow> bool" where
  "num_le NaN _ = False"
| "num_le _ NaN = False"
| "num_le a b = (\<not> num_lt b a)"

text \<open>The global \<open>isNaN\<close>, applied to a Number.\<close>

definition isNaN :: "jsnum \<Rightarrow> bool" where
  "isNaN n = (n = NaN)"

text \<open>A positive finite Number.\<close>

fun positive_finite :: "jsnum \<Rightarrow> bool" where
  "positive_finite (Finite s m e) = (\<not> s \<and> 0 < m)"
| "positive_finite _ = False"

section \<open>JavaScript values, errors and coercions\<close>

text \<open>
  The values the program handles come from \<open>JSON.parse\<close> and \<open>response.json()\<close>,
  from reading a property of such a value, or from arithmetic. An object is the list
  of its own properties.
\<close>

datatype jsval =
    JUndefined
  | JNull
  | JBool bool
  | JNum jsnum
  | JStr string
  | JArr "jsval list"
  | JObj "(string \<times> jsval) list"

text \<open>
  What the program can throw or be rejected with. \<open>Error502\<close> is the \<open>Error\<close> of line 66
  (502, Bad Gateway), \<open>ErrorNoBitcoinData\<close> the \<open>Error\<close> of line 91 (the Bitcoin data
  could not be retrieved); \<open>NetworkError\<close> is a rejected \<open>fetch\<close>, \<open>SyntaxError\<close> a body
  or a stored string that is not JSON, \<open>TypeError\<close> a property read on \<open>null\<close> or
  \<open>undefined\<close> or a failed conversion of an object to a primitive, and
  \<open>QuotaExceededError\<close> a refused \<open>localStorage.setItem\<close>.
\<close>

datatype js_error =
    NetworkError
  | SyntaxError
  | TypeError
  | QuotaExceededError
  | Error502
  | ErrorNoBitcoinData

text \<open>
  Reading property \<open>k\<close> of a value (\<open>v.k\<close>, and each name of a destructuring pattern):
  a \<open>TypeError\<close> on \<open>null\<close> and \<open>undefined\<close>, the own property of an object, and
  \<open>undefined\<close> otherwise. The program reads only the names \<open>rate\<close>, \<open>timestamp\<close>,
  \<open>Valute\<close>, \<open>USD\<close>, \<open>Value\<close>, \<open>last\<close>, \<open>total_fees\<close>, \<open>market_price_usd\<close> and
  \<open>trade_volume_btc\<close>, none of which the prototypes of objects, arrays, strings,
  numbers and booleans define.
\<close>

fun get_prop :: "jsval \<Rightarrow> string \<Rightarrow> js_error + jsval" where
  "get_prop JUndefined k = Inl TypeError"
| "get_prop JNull k = Inl TypeError"
| "get_prop (JObj kvs) k = (case map_of kvs k of None \<Rightarrow> Inr JUndefined | Some v \<Rightarrow> Inr v)"
| "get_prop _ k = Inr JUndefined"

text \<open>
  The parts of the host the program calls and this development does not define:
  the conversion of a string and of an object or array to a Number (the latter can
  throw a \<open>TypeError\<close>), and the locale formatting of numbers and of the time of day.
\<close>

record runtime =
  StringToNumber :: "string \<Rightarrow> jsnum"
  ObjectToNumber :: "jsval \<Rightarrow> js_error + jsnum"
  toLocaleString_ruRU :: "jsnum \<Rightarrow> nat \<Rightarrow> nat \<Rightarrow> string"
  toLocaleTimeString :: "int \<Rightarrow> string"

fun ToNumber :: "'a runtime_scheme \<Rightarrow> jsval \<Rightarrow> js_error + jsnum" where
  "ToNumber rt JUndefined = Inr NaN"
| "ToNumber rt JNull = Inr (num_of_int 0)"
| "ToNumber rt (JBool b) = Inr (num_of_int (if b then 1 else 0))"
| "ToNumber rt (JNum n) = Inr n"
| "ToNumber rt (JStr s) = Inr (StringToNumber rt s)"
| "ToNumber rt (JArr xs) = ObjectToNumber rt (JArr xs)"
| "ToNumber rt (JObj kvs) = ObjectToNumber rt (JObj kvs)"

text \<open>The operators \<open>a * b\<close> and \<open>a - b\<close>: the left operand is converted first.\<close>

definition js_mul :: "'a runtime_scheme \<Rightarrow> jsval \<Rightarrow> jsval \<Rightarrow> js_error + jsnum" where
  "js_mul rt a b =
     (case ToNumber rt a of Inl err \<Rightarrow> Inl err
      | Inr x \<Rightarrow> (case ToNumber rt b of Inl err \<Rightarrow> Inl err
          | Inr y \<Rightarrow> Inr (num_mul x y)))"

definition js_sub :: "'a runtime_scheme \<Rightarrow> jsval \<Rightarrow> jsval \<Rightarrow> js_error + jsnum" where
  "js_sub rt a b =
     (case ToNumber rt a of Inl err \<Rightarrow> Inl err
      | Inr x \<Rightarrow> (case ToNumber rt b of Inl err \<Rightarrow> Inl err
          | Inr y \<Rightarrow> Inr (num_sub x y)))"

text \<open>
  What \<open>JSON.parse (JSON.stringify v)\<close> gives back: a property whose value is
  \<open>undefined\<close> is left out, \<open>undefined\<close> in an array and a Number that is not finite
  become \<open>null\<close>, and the negative zero becomes zero.
\<close>

fun json_num :: "jsnum \<Rightarrow> jsval" where
  "json_num NaN = JNull"
| "json_num (Infinity s) = JNull"
| "json_num (Finite s m e) = JNum (Finite (s \<and> m \<noteq> 0) m e)"

fun json_roundtrip :: "jsval \<Rightarrow> jsval" where
  "json_roundtrip JUndefined = JNull"
| "json_roundtrip JNull = JNull"
| "json_roundtrip (JBool b) = JBool b"
| "json_roundtrip (JNum n) = json_num n"
| "json_roundtrip (JStr s) = JStr s"
| "json_roundtrip (JArr xs) = JArr (map json_roundtrip xs)"
| "json_roundtrip (JObj kvs) =
     JObj (map (\<lambda>(k, v). (k, json_roundtrip v)) (filter (\<lambda>(k, v). v \<noteq> JUndefined) kvs))"

text \<open>Sequencing of steps that can throw: the first error ends the chain.\<close>

fun sum_bind :: "'e + 'a \<Rightarrow> ('a \<Rightarrow> 'e + 'b) \<Rightarrow> 'e + 'b" where
  "sum_bind (Inl err) f = Inl err"
| "sum_bind (Inr x) f = f x"

section \<open>The world of the page\<close>

text \<open>
  A string held by \<open>localStorage\<close>, as far as the program can tell strings apart: it
  tests the string for truthiness (only the empty string is falsy) and hands it to
  \<open>JSON.parse\<close>, which throws a \<open>SyntaxError\<close> (\<open>Malformed\<close>) or returns a value
  (\<open>JsonText v\<close>).
\<close>

datatype stored = EmptyString | Malformed | JsonText jsval

text \<open>
  A settled \<open>fetch\<close>: the HTTP status, and what \<open>response.json()\<close> settles with.
\<close>

record response =
  status :: nat
  json :: "js_error + jsval"

text \<open>
  The environment of one refresh cycle: the host functions, the clock read by
  \<open>new Date()\<close> at line 19 (\<open>clock\<close>) and at lines 186 and 191 (\<open>clock_render\<close>),
  what each URL answers, and whether \<open>localStorage.setItem\<close> accepts the write.
\<close>

record env = runtime +
  clock :: int
  clock_render :: int
  fetch :: "string \<Rightarrow> js_error + response"
  setItem_ok :: bool

text \<open>The lines the program writes to the console, one constructor per call site.\<close>

datatype console_line =
    LogCachedRateUsed
  | LogRateUpdated
  | ErrRate js_error
  | LogStaleRateUsed
  | LogPrimaryOk
  | WarnPrimary js_error
  | LogFallbackOk
  | ErrFallback js_error
  | LogSkipped
  | ErrCritical js_error

text \<open>
  The content of the table body: what the page came with, the loading row of line 139,
  the data row of lines 175-184 (price, volume, total, class of the change cell, text
  of the change) and the error row of line 190. The text of the status element:
  what the page came with, line 186, line 191.
\<close>

datatype tbody_html =
    InitialRows
  | LoadingRow
  | DataRow string string string string string
  | ErrorRow js_error

datatype update_text = InitialText | LastUpdate string | UpdateError string

text \<open>
  The mutable state: \<open>localStorage\<close>, the two globals of lines 10 and 11 (\<open>None\<close> is
  \<open>null\<close>), the two elements of the page (\<open>None\<close>: \<open>getElementById\<close> returns
  \<open>null\<close>), and a record of the effects on the outside: the URLs fetched, the URLs
  whose body was read with \<open>response.json()\<close>, and the console.
\<close>

record state =
  localStorage :: "string \<rightharpoonup> stored"
  previousTotalRubValue :: "jsnum option"
  isFetching :: bool
  tbody :: "tbody_html option"
  updateTimeElement :: "update_text option"
  fetched :: "string list"
  bodies_read :: "string list"
  console :: "console_line list"

section \<open>Constants\<close>

definition BITCOIN_USD_URL :: string where
  "BITCOIN_USD_URL = ''https://luky3.jinr.ru/bitcoin.json''"

definition FALLBACK_BITCOIN_USD_URL :: string where
  "FALLBACK_BITCOIN_USD_URL = ''https://api.blockchain.info/stats''"

definition USD_RUB_URL :: string where
  "USD_RUB_URL = ''https://www.cbr-xml-daily.ru/daily_json.js''"

definition CACHE_KEY :: string where
  "CACHE_KEY = ''usdRubRateCache''"

definition CACHE_DURATION :: jsnum where
  "CACHE_DURATION = num_mul (num_mul (num_of_int 60) (num_of_int 60)) (num_of_int 1000)"

section \<open>getUsdRubRate\<close>

text \<open>Truthiness of what \<open>localStorage.getItem\<close> returns (\<open>None\<close> is \<open>null\<close>).\<close>

fun truthy :: "stored option \<Rightarrow> bool" where
  "truthy None = False"
| "truthy (Some EmptyString) = False"
| "truthy (Some _) = True"

fun JSON_parse :: "stored option \<Rightarrow> js_error + jsval" where
  "JSON_parse None = Inr JNull"
| "JSON_parse (Some EmptyString) = Inl SyntaxError"
| "JSON_parse (Some Malformed) = Inl SyntaxError"
| "JSON_parse (Some (JsonText v)) = Inr v"

text \<open>
  Lines 22-28: \<open>Inr (Some rate)\<close> is the return of line 26, \<open>Inr None\<close> falls
  through to line 31, \<open>Inl\<close> is a throw of line 23 or 24, outside any \<open>try\<close>.
\<close>

definition check_cache :: "env \<Rightarrow> stored option \<Rightarrow> jsnum \<Rightarrow> js_error + jsval option" where
  "check_cache ev cachedData now =
     (if truthy cachedData then
        sum_bind (JSON_parse cachedData) (\<lambda>parsed.
        sum_bind (get_prop parsed ''rate'') (\<lambda>rate.
        sum_bind (get_prop parsed ''timestamp'') (\<lambda>timestamp.
        sum_bind (js_sub ev (JNum now) timestamp) (\<lambda>age.
          if num_lt age CACHE_DURATION then Inr (Some rate) else Inr None))))
      else Inr None)"

text \<open>Lines 32-43, the body of the \<open>try\<close>.\<close>

definition fetch_usd_rate :: "env \<Rightarrow> state \<Rightarrow> jsnum \<Rightarrow> (js_error + jsval) \<times> state" where
  "fetch_usd_rate ev st now =
     (let st1 = st\<lparr>fetched := fetched st @ [USD_RUB_URL]\<rparr> in
      case fetch ev USD_RUB_URL of
        Inl err \<Rightarrow> (Inl err, st1)
      | Inr response \<Rightarrow>
          let st2 = st1\<lparr>bodies_read := bodies_read st1 @ [USD_RUB_URL]\<rparr> in
          (case json response of
             Inl err \<Rightarrow> (Inl err, st2)
           | Inr data \<Rightarrow>
               (case sum_bind (get_prop data ''Valute'') (\<lambda>valute.
                     sum_bind (get_prop valute ''USD'') (\<lambda>usd. get_prop usd ''Value'')) of
                  Inl err \<Rightarrow> (Inl err, st2)
                | Inr usdRate \<Rightarrow>
                    let newCache = JObj [(''rate'', usdRate), (''timestamp'', JNum now)] in
                    if setItem_ok ev then
                      (Inr usdRate,
                       st2\<lparr>localStorage :=
                             (localStorage st2)(CACHE_KEY \<mapsto> JsonText (json_roundtrip newCache)),
                           console := console st2 @ [LogRateUpdated]\<rparr>)
                    else (Inl QuotaExceededError, st2))))"

text \<open>Lines 45-54, the \<open>catch\<close>.\<close>

definition rate_fallback :: "stored option \<Rightarrow> js_error \<Rightarrow> state \<Rightarrow> (js_error + jsval) \<times> state" where
  "rate_fallback cachedData error st =
     (let st1 = st\<lparr>console := console st @ [ErrRate error]\<rparr> in
      if truthy cachedData then
        let st2 = st1\<lparr>console := console st1 @ [LogStaleRateUsed]\<rparr> in
        (sum_bind (JSON_parse cachedData) (\<lambda>parsed. get_prop parsed ''rate''), st2)
      else (Inr (JNum (num_of_int 90)), st1))"

text \<open>
  The whole function: \<open>Inr v\<close> is a promise fulfilled with \<open>v\<close>, \<open>Inl err\<close> a promise
  rejected with \<open>err\<close>.
\<close>

definition getUsdRubRate :: "env \<Rightarrow> state \<Rightarrow> (js_error + jsval) \<times> state" where
  "getUsdRubRate ev st =
     (let cachedData = localStorage st CACHE_KEY;
          now = num_of_int (clock ev)
      in case check_cache ev cachedData now of
           Inl err \<Rightarrow> (Inl err, st)
         | Inr (Some rate) \<Rightarrow> (Inr rate, st\<lparr>console := console st @ [LogCachedRateUsed]\<rparr>)
         | Inr None \<Rightarrow>
             (case fetch_usd_rate ev st now of
                (Inr usdRate, st') \<Rightarrow> (Inr usdRate, st')
              | (Inl error, st') \<Rightarrow> rate_fallback cachedData error st'))"

section \<open>getBitcoinData\<close>

text \<open>The object of lines 72-75 and 85-88.\<close>

record btc_data =
  priceUsd :: jsval
  volumeBtc :: jsval

text \<open>Lines 64-75, the body of the outer \<open>try\<close>.\<close>

definition fetch_primary :: "env \<Rightarrow> state \<Rightarrow> (js_error + btc_data) \<times> state" where
  "fetch_primary ev st =
     (let st1 = st\<lparr>fetched := fetched st @ [BITCOIN_USD_URL]\<rparr> in
      case fetch ev BITCOIN_USD_URL of
        Inl err \<Rightarrow> (Inl err, st1)
      | Inr response \<Rightarrow>
          if status response = 502 then (Inl Error502, st1)
          else
            let st2 = st1\<lparr>bodies_read := bodies_read st1 @ [BITCOIN_USD_URL]\<rparr> in
            (case json response of
               Inl err \<Rightarrow> (Inl err, st2)
             | Inr data \<Rightarrow>
                 let st3 = st2\<lparr>console := console st2 @ [LogPrimaryOk]\<rparr> in
                 (sum_bind (get_prop data ''last'') (\<lambda>last.
                  sum_bind (get_prop data ''total_fees'') (\<lambda>total_fees.
                    Inr \<lparr>priceUsd = last, volumeBtc = total_fees\<rparr>)), st3)))"

text \<open>Lines 81-88, the body of the inner \<open>try\<close>.\<close>

definition fetch_fallback :: "env \<Rightarrow> state \<Rightarrow> (js_error + btc_data) \<times> state" where
  "fetch_fallback ev st =
     (let st1 = st\<lparr>fetched := fetched st @ [FALLBACK_BITCOIN_USD_URL]\<rparr> in
      case fetch ev FALLBACK_BITCOIN_USD_URL of
        Inl err \<Rightarrow> (Inl err, st1)
      | Inr response \<Rightarrow>
          let st2 = st1\<lparr>bodies_read := bodies_read st1 @ [FALLBACK_BITCOIN_USD_URL]\<rparr> in
          (case json response of
             Inl err \<Rightarrow> (Inl err, st2)
           | Inr data \<Rightarrow>
               let st3 = st2\<lparr>console := console st2 @ [LogFallbackOk]\<rparr> in
               (sum_bind (get_prop data ''market_price_usd'') (\<lambda>market_price_usd.
                sum_bind (get_prop data ''trade_volume_btc'') (\<lambda>trade_volume_btc.
                  Inr \<lparr>priceUsd = market_price_usd, volumeBtc = trade_volume_btc\<rparr>)), st3)))"

definition getBitcoinData :: "env \<Rightarrow> state \<Rightarrow> (js_error + btc_data) \<times> state" where
  "getBitcoinData ev st =
     (case fetch_primary ev st of
        (Inr btcData, st') \<Rightarrow> (Inr btcData, st')
      | (Inl e, st') \<Rightarrow>
          let st1 = st'\<lparr>console := console st' @ [WarnPrimary e]\<rparr> in
          (case fetch_fallback ev st1 of
             (Inr btcData, st2) \<Rightarrow> (Inr btcData, st2)
           | (Inl error, st2) \<Rightarrow>
               (Inl ErrorNoBitcoinData, st2\<lparr>console := console st2 @ [ErrFallback error]\<rparr>)))"

section \<open>Formatting\<close>

definition formatRub :: "'a runtime_scheme \<Rightarrow> jsval \<Rightarrow> string" where
  "formatRub rt v =
     (let numberValue = (case v of JNum n \<Rightarrow> if \<not> isNaN n then n else num_of_int 0
                                 | _ \<Rightarrow> num_of_int 0)
      in toLocaleString_ruRU rt numberValue 2 2)"

definition formatBtc :: "'a runtime_scheme \<Rightarrow> jsval \<Rightarrow> string" where
  "formatBtc rt v =
     (let numberValue = (case v of JNum n \<Rightarrow> if \<not> isNaN n then n else num_of_int 0
                                 | _ \<Rightarrow> num_of_int 0)
      in toLocaleString_ruRU rt numberValue 4 8)"

section \<open>updateCryptoTable\<close>

text \<open>The values computed by lines 148-172.\<close>

record snapshot =
  marketPriceRub :: jsnum
  totalRubValue :: jsnum
  changeRubValue :: jsnum
  changeClass :: string
  changeSign :: string

text \<open>
  Lines 148-172 but line 169: the computation from the rate, the Bitcoin data and the
  previous total. A multiplication throws when an operand is an object that does not
  convert to a primitive.
\<close>

definition compute_snapshot ::
  "'a runtime_scheme \<Rightarrow> jsval \<Rightarrow> btc_data \<Rightarrow> jsnum option \<Rightarrow> js_error + snapshot" where
  "compute_snapshot rt usdRubRate btcData previous =
     sum_bind (js_mul rt (priceUsd btcData) usdRubRate) (\<lambda>marketPriceRub'.
     sum_bind (js_mul rt (JNum marketPriceRub') (volumeBtc btcData)) (\<lambda>totalRubValue'.
       let changeRubValue' =
             (case previous of None \<Rightarrow> num_of_int 0
              | Some p \<Rightarrow> num_sub totalRubValue' p);
           changeClass' =
             (case previous of None \<Rightarrow> ''zero''
              | Some p \<Rightarrow>
                  if num_gt changeRubValue' (num_of_int 0) then ''positive''
                  else if num_lt changeRubValue' (num_of_int 0) then ''negative''
                  else ''zero'');
           changeSign' = (if num_gt changeRubValue' (num_of_int 0) then ''+'' else [])
       in Inr \<lparr>marketPriceRub = marketPriceRub', totalRubValue = totalRubValue',
                changeRubValue = changeRubValue', changeClass = changeClass',
                changeSign = changeSign'\<rparr>))"

text \<open>
  Lines 143-186, the body of the \<open>try\<close>: \<open>None\<close> when it completes, \<open>Some error\<close> when
  it throws. Both calls of line 143 are made before the join; \<open>getUsdRubRate\<close> can be
  rejected only before its first \<open>await\<close>, so its rejection is the one \<open>Promise.all\<close>
  reports when both are rejected. \<open>tbody\<close> is the element line 139 wrote to.
\<close>

definition try_update :: "env \<Rightarrow> state \<Rightarrow> js_error option \<times> state" where
  "try_update ev st =
     (let rateCall = getUsdRubRate ev st;
          btcCall = getBitcoinData ev (snd rateCall);
          st2 = snd btcCall
      in case fst rateCall of
        Inl error \<Rightarrow> (Some error, st2)
      | Inr usdRubRate \<Rightarrow>
          (case fst btcCall of
             Inl error \<Rightarrow> (Some error, st2)
           | Inr btcData \<Rightarrow>
               (case compute_snapshot ev usdRubRate btcData (previousTotalRubValue st2) of
                  Inl error \<Rightarrow> (Some error, st2)
                | Inr s \<Rightarrow>
                    let st3 = st2\<lparr>previousTotalRubValue := Some (totalRubValue s)\<rparr>;
                        changeText = changeSign s @ formatRub ev (JNum (changeRubValue s));
                        st4 = st3\<lparr>tbody := Some (DataRow
                                (formatRub ev (JNum (marketPriceRub s)))
                                (formatBtc ev (volumeBtc btcData))
                                (formatRub ev (JNum (totalRubValue s)))
                                (changeClass s)
                                changeText)\<rparr>
                    in (case updateTimeElement st4 of
                          None \<Rightarrow> (Some TypeError, st4)
                        | Some _ \<Rightarrow>
                            (None, st4\<lparr>updateTimeElement :=
                               Some (LastUpdate (toLocaleTimeString ev (clock_render ev)))\<rparr>)))))"

text \<open>Lines 188-191, the \<open>catch\<close>: \<open>Some err\<close> when line 191 throws.\<close>

definition catch_update :: "env \<Rightarrow> js_error \<Rightarrow> state \<Rightarrow> js_error option \<times> state" where
  "catch_update ev error st =
     (let st1 = st\<lparr>console := console st @ [ErrCritical error],
                   tbody := Some (ErrorRow error)\<rparr>
      in case updateTimeElement st1 of
           None \<Rightarrow> (Some TypeError, st1)
         | Some _ \<Rightarrow>
             (None, st1\<lparr>updateTimeElement :=
                Some (UpdateError (toLocaleTimeString ev (clock_render ev)))\<rparr>))"

text \<open>
  Lines 129-139, run when the function is called: the guard, the flag and the loading
  row. \<open>Skipped\<close> is the return of line 131, \<open>Threw\<close> a throw of line 139, \<open>Awaiting\<close>
  a cycle that goes on to line 141 and is suspended at the \<open>await\<close> of line 143.
\<close>

datatype entered = Skipped | Threw js_error | Awaiting

definition enter_update :: "state \<Rightarrow> entered \<times> state" where
  "enter_update st =
     (if isFetching st then (Skipped, st\<lparr>console := console st @ [LogSkipped]\<rparr>)
      else
        let st1 = st\<lparr>isFetching := True\<rparr> in
        case tbody st1 of
          None \<Rightarrow> (Threw TypeError, st1)
        | Some _ \<Rightarrow> (Awaiting, st1\<lparr>tbody := Some LoadingRow\<rparr>))"

text \<open>Lines 141-194: \<open>try\<close>, \<open>catch\<close> and \<open>finally\<close>.\<close>

definition settle_update :: "env \<Rightarrow> state \<Rightarrow> js_error option \<times> state" where
  "settle_update ev st =
     (case (case try_update ev st of
              (None, st1) \<Rightarrow> (None, st1)
            | (Some error, st1) \<Rightarrow> catch_update ev error st1) of
        (outcome, st2) \<Rightarrow> (outcome, st2\<lparr>isFetching := False\<rparr>))"

text \<open>
  One call of \<open>updateCryptoTable\<close>, run to the end: \<open>None\<close> when its promise is
  fulfilled, \<open>Some err\<close> when it is rejected.
\<close>

definition updateCryptoTable :: "env \<Rightarrow> state \<Rightarrow> js_error option \<times> state" where
  "updateCryptoTable ev st =
     (case enter_update st of
        (Skipped, st1) \<Rightarrow> (None, st1)
      | (Threw err, st1) \<Rightarrow> (Some err, st1)
      | (Awaiting, st1) \<Rightarrow> settle_update ev st1)"

section \<open>The specification's notions\<close>

text \<open>
  The SnapshotComputer as the specification words it: the market price in the local
  currency, the total value, the change against the previous total (zero when there
  is none) and the sign of the change.
\<close>

datatype change_sign = Positive | Negative | Zero

record spec_snapshot =
  marketPriceLocal :: jsnum
  totalValueLocal :: jsnum
  changeLocal :: jsnum
  signOfChange :: change_sign

definition SnapshotComputer :: "jsnum \<Rightarrow> jsnum \<Rightarrow> jsnum \<Rightarrow> jsnum option \<Rightarrow> spec_snapshot" where
  "SnapshotComputer price volumeUnits rate previousTotal =
     (let market = num_mul price rate;
          total = num_mul market volumeUnits;
          change = (case previousTotal of None \<Rightarrow> num_of_int 0
                    | Some p \<Rightarrow> num_sub total p)
      in \<lparr>marketPriceLocal = market, totalValueLocal = total, changeLocal = change,
          signOfChange = (if num_gt change (num_of_int 0) then Positive
                          else if num_lt change (num_of_int 0) then Negative else Zero)\<rparr>)"

text \<open>The class of the change cell that stands for each sign.\<close>

fun class_of_sign :: "change_sign \<Rightarrow> string" where
  "class_of_sign Positive = ''positive''"
| "class_of_sign Negative = ''negative''"
| "class_of_sign Zero = ''zero''"

text \<open>
  The invariant of the data model on the stored entry, at the time \<open>now\<close>: if present,
  the entry is an object whose \<open>rate\<close> is a positive finite number and whose
  \<open>timestamp\<close> is a number not after \<open>now\<close>.
\<close>

definition CachedRate_invariant :: "jsnum \<Rightarrow> stored option \<Rightarrow> bool" where
  "CachedRate_invariant now item =
     (case item of
        None \<Rightarrow> True
      | Some EmptyString \<Rightarrow> False
      | Some Malformed \<Rightarrow> False
      | Some (JsonText parsed) \<Rightarrow>
          (case (get_prop parsed ''rate'', get_prop parsed ''timestamp'') of
             (Inr (JNum rate), Inr (JNum timestamp)) \<Rightarrow>
               positive_finite rate \<and> num_le timestamp now
           | _ \<Rightarrow> False))"

text \<open>A status in the range 200-299.\<close>

definition is_2xx :: "nat \<Rightarrow> bool" where
  "is_2xx code = (200 \<le> code \<and> code < 300)"

text \<open>
  A body whose fields cannot be read: the JSON \<open>null\<close> (and \<open>undefined\<close>, which no
  JSON text denotes).
\<close>

definition unreadable :: "jsval \<Rightarrow> bool" where
  "unreadable data = (data = JNull \<or> data = JUndefined)"

text \<open>
  The primary responses that \<open>getBitcoinData\<close> treats as failed: a rejected fetch, the
  status 502, a body that is not JSON, and a body whose fields cannot be read.
\<close>

definition primary_fails :: "env \<Rightarrow> bool" where
  "primary_fails ev =
     (case fetch ev BITCOIN_USD_URL of
        Inl err \<Rightarrow> True
      | Inr response \<Rightarrow>
          status response = 502 \<or>
          (case json response of Inl err \<Rightarrow> True | Inr data \<Rightarrow> unreadable data))"


text \<open>
  The outcomes of the network and of the storage on which the refresh of the rate
  fails: the fetch is rejected, the body is not JSON, the field \<open>Valute.USD.Value\<close>
  cannot be reached in the body, or \<open>localStorage\<close> refuses the write.
\<close>

definition rate_refresh_fails :: "env \<Rightarrow> bool" where
  "rate_refresh_fails ev =
     (case fetch ev USD_RUB_URL of
        Inl err \<Rightarrow> True
      | Inr response \<Rightarrow>
          (case json response of
             Inl err \<Rightarrow> True
           | Inr data \<Rightarrow>
               (case get_prop data ''Valute'' of
                  Inl err \<Rightarrow> True
                | Inr valute \<Rightarrow>
                    (case get_prop valute ''USD'' of
                       Inl err \<Rightarrow> True
                     | Inr usd \<Rightarrow>
                         (case get_prop usd ''Value'' of
                            Inl err \<Rightarrow> True
                          | Inr usdRate \<Rightarrow> setItem_ok ev = False)))))"

text \<open>The shape-B mapping of a body of the secondary endpoint.\<close>

definition shape_B :: "jsval \<Rightarrow> js_error + btc_data" where
  "shape_B data =
     sum_bind (get_prop data ''market_price_usd'') (\<lambda>p.
     sum_bind (get_prop data ''trade_volume_btc'') (\<lambda>v.
       Inr \<lparr>priceUsd = p, volumeBtc = v\<rparr>))"

section \<open>Scenarios\<close>

text \<open>
  Concrete hosts, pages and networks on which the theorems below are instantiated.
  The host of \<open>host_env\<close> converts every string and object to \<open>NaN\<close>, and formats
  \<open>NaN\<close> as \<open>NaN\<close>, zero as \<open>0,0...0\<close> with the least number of decimals asked for, and
  every other number as \<open>#,##\<close>; \<open>page\<close> is the page as loaded, with both elements
  present, an empty \<open>localStorage\<close> and the globals of lines 10 and 11.
\<close>

definition respond ::
  "(js_error + response) \<Rightarrow> (js_error + response) \<Rightarrow> (js_error + response) \<Rightarrow>
   string \<Rightarrow> js_error + response" where
  "respond rate primary fallback url =
     (if url = USD_RUB_URL then rate
      else if url = BITCOIN_USD_URL then primary
      else if url = FALLBACK_BITCOIN_USD_URL then fallback
      else Inl NetworkError)"

definition host_format :: "jsnum \<Rightarrow> nat \<Rightarrow> nat \<Rightarrow> string" where
  "host_format n lo hi =
     (if n = NaN then ''NaN''
      else if n = Finite False 0 (- 1074) then ''0,'' @ replicate lo (CHR ''0'')
      else ''#,##'')"

definition host_env :: "int \<Rightarrow> (string \<Rightarrow> js_error + response) \<Rightarrow> env" where
  "host_env t net =
     \<lparr>StringToNumber = (\<lambda>s. NaN), ObjectToNumber = (\<lambda>v. Inr NaN),
      toLocaleString_ruRU = host_format, toLocaleTimeString = (\<lambda>t. ''12:00:00''),
      clock = t, clock_render = t, fetch = net, setItem_ok = True\<rparr>"

definition page :: state where
  "page =
     \<lparr>localStorage = Map.empty, previousTotalRubValue = None, isFetching = False,
      tbody = Some InitialRows, updateTimeElement = Some InitialText,
      fetched = [], bodies_read = [], console = []\<rparr>"

definition with_cache :: "stored \<Rightarrow> state \<Rightarrow> state" where
  "with_cache item st = st\<lparr>localStorage := (localStorage st)(CACHE_KEY \<mapsto> item)\<rparr>"

definition ok_json :: "nat \<Rightarrow> jsval \<Rightarrow> js_error + response" where
  "ok_json code body = Inr \<lparr>status = code, json = Inr body\<rparr>"

definition not_json :: "nat \<Rightarrow> js_error + response" where
  "not_json code = Inr \<lparr>status = code, json = Inl SyntaxError\<rparr>"

definition rate_body :: "jsval \<Rightarrow> jsval" where
  "rate_body v = JObj [(''Valute'', JObj [(''USD'', JObj [(''Value'', v)])])]"

text \<open>A body of an error page, and the body of the secondary endpoint of the specification.\<close>

definition error_body :: jsval where
  "error_body = JObj [(''error'', JStr ''Internal Server Error'')]"

definition stats_body :: jsval where
  "stats_body = JObj [(''market_price_usd'', JNum (num_of_int 50000)),
                      (''trade_volume_btc'', JNum (num_of_int 2))]"

definition cached_rate :: "jsval \<Rightarrow> int \<Rightarrow> stored" where
  "cached_rate rate t = JsonText (JObj [(''rate'', rate), (''timestamp'', JNum (num_of_int t))])"

text \<open>
  A page whose last successful cycle left the total 4000000, a network on which every
  fetch is rejected, and one minute later a network that answers with the rate 90,
  the price 50000 and the volume 1.
\<close>

definition page_after_cycle :: state where
  "page_after_cycle = page\<lparr>previousTotalRubValue := Some (num_of_int 4000000)\<rparr>"

definition network_down :: env where
  "network_down = host_env 1700000000000 (\<lambda>url. Inl NetworkError)"

definition network_up :: env where
  "network_up =
     host_env 1700000060000
       (respond (ok_json 200 (rate_body (JNum (num_of_int 90))))
          (ok_json 200 (JObj [(''last'', JNum (num_of_int 50000)),
                              (''total_fees'', JNum (num_of_int 1))]))
          (Inl NetworkError))"

section \<open>Facts about numbers\<close>

text \<open>
  The unfoldings that evaluate an operation on concrete Numbers (to be used with the
  splitting of conditionals switched off).
\<close>

lemmas num_eval = num_of_int_def round_double_def bitlen.simps Let_def scaled_def
  num_sub_def num_gt_def

lemma num_of_int_0: "num_of_int 0 = Finite False 0 (- 1074)"
  by (simp add: num_of_int_def round_double_def)

lemma num_of_int_values:
  "num_of_int 1 = Finite False 4503599627370496 (- 52)"
  "num_of_int 90 = Finite False 6333186975989760 (- 46)"
  "num_of_int 92 = Finite False 6473924464345088 (- 46)"
  "num_of_int 500000 = Finite False 8589934592000000 (- 34)"
  "num_of_int 4500000 = Finite False 4831838208000000 (- 30)"
  by (simp_all add: num_eval split del: if_split)

lemma zero_not_lt_zero: "\<not> num_lt (num_of_int 0) (num_of_int 0)"
  by (simp add: num_of_int_0)

lemma zero_not_gt_zero: "\<not> num_gt (num_of_int 0) (num_of_int 0)"
  by (simp add: num_gt_def zero_not_lt_zero)

lemma example_arith:
  "num_mul (num_of_int 50000) (num_of_int 90) = num_of_int 4500000"
  "num_mul (num_of_int 4500000) (num_of_int 1) = num_of_int 4500000"
  "num_sub (num_of_int 4500000) (num_of_int 4000000) = num_of_int 500000"
  "num_gt (num_of_int 500000) (num_of_int 0)"
  by (simp_all add: num_eval split del: if_split)

text \<open>One hour, in milliseconds.\<close>

lemma CACHE_DURATION_hour: "CACHE_DURATION = num_of_int 3600000"
  by (simp add: CACHE_DURATION_def num_eval split del: if_split)

text \<open>Half an hour is less than the lifetime of the cache, sixty-one minutes are not.\<close>

lemma half_hour_fresh:
  "num_lt (num_sub (num_of_int 1700000000000) (num_of_int 1699998200000))
     (num_of_int 3600000)"
  by (simp add: num_eval split del: if_split)

lemma hour_stale:
  "\<not> num_lt (num_sub (num_of_int 1700000000000) (num_of_int 1699996340000))
     (num_of_int 3600000)"
  by (simp add: num_eval split del: if_split)

subsection \<open>Integers as Numbers\<close>

text \<open>
  An integer below \<open>2\<^sup>5\<^sup>3\<close> in absolute value is a Number exactly, so the comparison
  of two such Numbers is the comparison of the integers. The time values of \<open>Date\<close>
  are such integers.
\<close>

lemma bitlen_bound: "m < 2 ^ k \<Longrightarrow> bitlen m \<le> k"
proof (induction k arbitrary: m)
  case 0
  then show ?case by (simp add: bitlen.simps)
next
  case (Suc k)
  then have "m div 2 < 2 ^ k" by simp
  then have "bitlen (m div 2) \<le> k" by (rule Suc.IH)
  then show ?case by (subst bitlen.simps) simp
qed

lemma bitlen_pos: "0 < m \<Longrightarrow> 0 < bitlen m"
  by (subst bitlen.simps) simp

lemma round_double_exact:
  assumes "0 < m" and "m < 2 ^ 53"
  shows "round_double s m 0 = Finite s (m * 2 ^ (53 - bitlen m)) (int (bitlen m) - 53)"
proof -
  have b: "bitlen m \<le> 53" "0 < bitlen m"
    using assms by (simp_all add: bitlen_bound bitlen_pos)
  then have k: "max (int (bitlen m) - 53) (- 1074 - 0) = int (bitlen m) - 53" by simp
  have n: "nat (- (int (bitlen m) - 53)) = 53 - bitlen m" using b by simp
  show ?thesis
    using assms b unfolding round_double_def Let_def k n by simp
qed

lemma num_of_int_exact:
  assumes "\<bar>i\<bar> < 2 ^ 53"
  shows "\<exists>s m e. num_of_int i = Finite s m e \<and> e \<le> 0 \<and> (s \<longrightarrow> m \<noteq> 0) \<and>
           (\<forall>g\<le>e. scaled g s m e = i * 2 ^ nat (- g))"
proof (cases "i = 0")
  case True
  then have "num_of_int i = Finite False 0 (- 1074) \<and> (- 1074::int) \<le> 0 \<and>
      (False \<longrightarrow> (0::nat) \<noteq> 0) \<and>
      (\<forall>g\<le>- 1074. scaled g False 0 (- 1074) = i * 2 ^ nat (- g))"
    by (simp add: num_of_int_0 scaled_def)
  then show ?thesis by blast
next
  case False
  define m where "m = nat \<bar>i\<bar>"
  have m: "0 < m" "m < 2 ^ 53" using False assms by (simp_all add: m_def nat_less_iff)
  have b: "bitlen m \<le> 53" using m by (simp add: bitlen_bound)
  have r: "num_of_int i = Finite (i < 0) (m * 2 ^ (53 - bitlen m)) (int (bitlen m) - 53)"
    unfolding num_of_int_def m_def [symmetric] by (rule round_double_exact [OF m])
  have "scaled g (i < 0) (m * 2 ^ (53 - bitlen m)) (int (bitlen m) - 53) = i * 2 ^ nat (- g)"
    if g: "g \<le> int (bitlen m) - 53" for g
  proof -
    have "nat (- g) = (53 - bitlen m) + nat (int (bitlen m) - 53 - g)"
      using g b by simp
    then have p: "(2::int) ^ (53 - bitlen m) * 2 ^ nat (int (bitlen m) - 53 - g) = 2 ^ nat (- g)"
      by (simp add: power_add)
    have sg: "(if i < 0 then - 1 else 1) * int m = i"
      by (simp add: m_def)
    have "scaled g (i < 0) (m * 2 ^ (53 - bitlen m)) (int (bitlen m) - 53) =
        ((if i < 0 then - 1 else 1) * int m) *
        (2 ^ (53 - bitlen m) * 2 ^ nat (int (bitlen m) - 53 - g))"
      unfolding scaled_def by (simp only: of_nat_mult of_nat_power of_nat_numeral mult.assoc)
    also have "\<dots> = i * 2 ^ nat (- g)"
      by (simp only: sg p)
    finally show ?thesis .
  qed
  then have "num_of_int i = Finite (i < 0) (m * 2 ^ (53 - bitlen m)) (int (bitlen m) - 53) \<and>
      int (bitlen m) - 53 \<le> 0 \<and> (i < 0 \<longrightarrow> m * 2 ^ (53 - bitlen m) \<noteq> 0) \<and>
      (\<forall>g\<le>int (bitlen m) - 53.
         scaled g (i < 0) (m * 2 ^ (53 - bitlen m)) (int (bitlen m) - 53) = i * 2 ^ nat (- g))"
    using r b m by simp
  then show ?thesis by blast
qed

lemma num_lt_of_int:
  assumes "\<bar>i\<bar> < 2 ^ 53" and "\<bar>j\<bar> < 2 ^ 53"
  shows "num_lt (num_of_int i) (num_of_int j) = (i < j)"
proof -
  from num_of_int_exact [OF assms(1)] obtain s m e
    where i: "num_of_int i = Finite s m e" "\<forall>g\<le>e. scaled g s m e = i * 2 ^ nat (- g)" by blast
  from num_of_int_exact [OF assms(2)] obtain t n f
    where j: "num_of_int j = Finite t n f" "\<forall>g\<le>f. scaled g t n f = j * 2 ^ nat (- g)" by blast
  have "scaled (min e f) s m e = i * 2 ^ nat (- min e f)"
    and "scaled (min e f) t n f = j * 2 ^ nat (- min e f)"
    using i(2) j(2) by simp_all
  then show ?thesis
    by (simp add: i(1) j(1) Let_def)
qed

lemma num_le_of_int:
  assumes "\<bar>i\<bar> < 2 ^ 53" and "\<bar>j\<bar> < 2 ^ 53"
  shows "num_le (num_of_int i) (num_of_int j) = (i \<le> j)"
proof -
  from num_of_int_exact [OF assms(1)] obtain s m e where i: "num_of_int i = Finite s m e"
    by blast
  from num_of_int_exact [OF assms(2)] obtain t n f where j: "num_of_int j = Finite t n f"
    by blast
  have "num_le (num_of_int i) (num_of_int j) = (\<not> num_lt (num_of_int j) (num_of_int i))"
    by (simp add: i j)
  then show ?thesis
    by (simp add: num_lt_of_int [OF assms(2) assms(1)] not_less)
qed

lemma json_num_of_int:
  assumes "\<bar>i\<bar> < 2 ^ 53"
  shows "json_num (num_of_int i) = JNum (num_of_int i)"
proof -
  from num_of_int_exact [OF assms] obtain s m e
    where "num_of_int i = Finite s m e" "s \<longrightarrow> m \<noteq> 0" by blast
  then show ?thesis by auto
qed

lemma json_num_positive: "positive_finite n \<Longrightarrow> json_num n = JNum n"
  by (cases n) auto

section \<open>Unfolding the program\<close>

text \<open>The definitions that evaluate the program on a concrete page and network.\<close>

lemmas program_defs = updateCryptoTable_def enter_update_def settle_update_def try_update_def
  catch_update_def getUsdRubRate_def check_cache_def fetch_usd_rate_def rate_fallback_def
  getBitcoinData_def fetch_primary_def fetch_fallback_def Let_def

section \<open>The snapshot computation\<close>

text \<open>
  C1. For every price point and rate that are numbers, lines 148-172 of
  \<open>updateCryptoTable\<close> compute what the SnapshotComputer of the specification
  describes: the market price is the price times the rate, the total is the market
  price times the volume, the change is zero when there is no previous total and the
  total minus the previous total otherwise, and the class of the change cell is the
  sign of the change compared with zero. For the price 50000, the rate 90, the
  volume 1 and the previous total 4000000 the code yields the market price 4500000,
  the total 4500000, the change 500000 and the class \<open>positive\<close>.
\<close>

theorem snapshot_computation:
  "compute_snapshot rt (JNum rate) \<lparr>priceUsd = JNum price, volumeBtc = JNum volume\<rparr>
     previousTotal =
     (let s = SnapshotComputer price volume rate previousTotal
      in Inr \<lparr>marketPriceRub = marketPriceLocal s, totalRubValue = totalValueLocal s,
               changeRubValue = changeLocal s, changeClass = class_of_sign (signOfChange s),
               changeSign = (if signOfChange s = Positive then ''+'' else [])\<rparr>)
   \<and> compute_snapshot rt (JNum (num_of_int 90))
       \<lparr>priceUsd = JNum (num_of_int 50000), volumeBtc = JNum (num_of_int 1)\<rparr>
       (Some (num_of_int 4000000)) =
     Inr \<lparr>marketPriceRub = num_of_int 4500000, totalRubValue = num_of_int 4500000,
          changeRubValue = num_of_int 500000, changeClass = ''positive'',
          changeSign = ''+''\<rparr>"
proof
  show "compute_snapshot rt (JNum rate) \<lparr>priceUsd = JNum price, volumeBtc = JNum volume\<rparr>
     previousTotal =
     (let s = SnapshotComputer price volume rate previousTotal
      in Inr \<lparr>marketPriceRub = marketPriceLocal s, totalRubValue = totalValueLocal s,
               changeRubValue = changeLocal s, changeClass = class_of_sign (signOfChange s),
               changeSign = (if signOfChange s = Positive then ''+'' else [])\<rparr>)"
    by (cases previousTotal)
       (simp_all add: compute_snapshot_def SnapshotComputer_def js_mul_def Let_def
          zero_not_lt_zero zero_not_gt_zero)
next
  show "compute_snapshot rt (JNum (num_of_int 90))
       \<lparr>priceUsd = JNum (num_of_int 50000), volumeBtc = JNum (num_of_int 1)\<rparr>
       (Some (num_of_int 4000000)) =
     Inr \<lparr>marketPriceRub = num_of_int 4500000, totalRubValue = num_of_int 4500000,
          changeRubValue = num_of_int 500000, changeClass = ''positive'',
          changeSign = ''+''\<rparr>"
    by (simp add: compute_snapshot_def js_mul_def Let_def example_arith)
qed

section \<open>The exchange rate\<close>

text \<open>The network scenarios answer each of the three URLs with its own outcome.\<close>

lemma respond_urls:
  "respond r p f USD_RUB_URL = r"
  "respond r p f BITCOIN_USD_URL = p"
  "respond r p f FALLBACK_BITCOIN_USD_URL = f"
  by (simp_all add: respond_def USD_RUB_URL_def BITCOIN_USD_URL_def
        FALLBACK_BITCOIN_USD_URL_def)

text \<open>A rejected fetch and a body that is not JSON both make the \<open>try\<close> of line 31 throw.\<close>

lemma fetch_usd_rate_rejected:
  "fetch ev USD_RUB_URL = Inl err \<Longrightarrow> fst (fetch_usd_rate ev st now) = Inl err"
  by (simp add: fetch_usd_rate_def)

lemma fetch_usd_rate_unparsable:
  "fetch ev USD_RUB_URL = Inr response \<Longrightarrow> json response = Inl err \<Longrightarrow>
   fst (fetch_usd_rate ev st now) = Inl err"
  by (simp add: fetch_usd_rate_def)

text \<open>
  C2. For every stored entry whose age \<open>now - timestamp\<close> is less than one hour,
  \<open>getUsdRubRate\<close> returns the stored rate at once: its only effect is the console line
  of line 25, so it fetches nothing and leaves \<open>localStorage\<close> as it was.
\<close>

theorem cache_hit:
  assumes stored: "localStorage st CACHE_KEY = Some (JsonText parsed)"
      and rate: "get_prop parsed ''rate'' = Inr rate"
      and timestamp: "get_prop parsed ''timestamp'' = Inr timestamp"
      and age: "js_sub ev (JNum (num_of_int (clock ev))) timestamp = Inr age"
      and fresh: "num_lt age (num_of_int 3600000)"
  shows "getUsdRubRate ev st = (Inr rate, st\<lparr>console := console st @ [LogCachedRateUsed]\<rparr>)
       \<and> fetched (snd (getUsdRubRate ev st)) = fetched st
       \<and> localStorage (snd (getUsdRubRate ev st)) = localStorage st"
proof -
  have "check_cache ev (localStorage st CACHE_KEY) (num_of_int (clock ev)) = Inr (Some rate)"
    using assms by (simp add: check_cache_def CACHE_DURATION_hour)
  then show ?thesis
    by (simp add: getUsdRubRate_def Let_def)
qed

text \<open>
  An entry stored half an hour ago, with every fetch failing: the stored rate is
  returned and nothing is fetched.
\<close>

theorem cache_hit_witness:
  "getUsdRubRate (host_env 1700000000000 (\<lambda>url. Inl NetworkError))
     (with_cache (cached_rate (JNum (num_of_int 92)) 1699998200000) page) =
   (Inr (JNum (num_of_int 92)),
    (with_cache (cached_rate (JNum (num_of_int 92)) 1699998200000) page)
      \<lparr>console := [LogCachedRateUsed]\<rparr>)"
  using cache_hit [of "with_cache (cached_rate (JNum (num_of_int 92)) 1699998200000) page"
      "JObj [(''rate'', JNum (num_of_int 92)), (''timestamp'', JNum (num_of_int 1699998200000))]"
      "JNum (num_of_int 92)" "JNum (num_of_int 1699998200000)"
      "host_env 1700000000000 (\<lambda>url. Inl NetworkError)"
      "num_sub (num_of_int 1700000000000) (num_of_int 1699998200000)"]
    half_hour_fresh
  by (simp add: with_cache_def cached_rate_def page_def host_env_def js_sub_def)

text \<open>
  The refresh fails on exactly these outcomes: lines 32-43 throw, whatever the state.
\<close>

lemma fetch_usd_rate_fails:
  "rate_refresh_fails ev \<longleftrightarrow> (\<exists>err. fst (fetch_usd_rate ev st now) = Inl err)"
  by (auto simp: rate_refresh_fails_def fetch_usd_rate_def Let_def split: sum.splits)

text \<open>What the \<open>catch\<close> of lines 45-54 returns once the \<open>try\<close> has thrown.\<close>

lemma getUsdRubRate_after_throw:
  assumes "check_cache ev (localStorage st CACHE_KEY) (num_of_int (clock ev)) = Inr None"
      and "fst (fetch_usd_rate ev st (num_of_int (clock ev))) = Inl err"
  shows "fst (getUsdRubRate ev st) =
           (if truthy (localStorage st CACHE_KEY)
            then sum_bind (JSON_parse (localStorage st CACHE_KEY))
                   (\<lambda>parsed. get_prop parsed ''rate'')
            else Inr (JNum (num_of_int 90)))"
  using assms
  by (cases "fetch_usd_rate ev st (num_of_int (clock ev))")
     (simp add: getUsdRubRate_def rate_fallback_def Let_def)

text \<open>
  C3. When the entry is absent or expired and the fetch of the rate or its parsing
  fails (the fetch is rejected, the body is not JSON, the field \<open>Valute.USD.Value\<close>
  cannot be reached, or the write of the new entry is refused), \<open>getUsdRubRate\<close>
  returns the rate of the stored entry if there is one, expired as it is, and the
  number 90 if there is none; in both cases it returns and does not throw.
\<close>

theorem rate_failure_fallback:
  assumes failed: "rate_refresh_fails ev"
  shows "(\<not> truthy (localStorage st CACHE_KEY) \<longrightarrow>
            fst (getUsdRubRate ev st) = Inr (JNum (num_of_int 90)))
       \<and> (\<forall>parsed rate timestamp age.
            localStorage st CACHE_KEY = Some (JsonText parsed) \<and>
            get_prop parsed ''rate'' = Inr rate \<and>
            get_prop parsed ''timestamp'' = Inr timestamp \<and>
            js_sub ev (JNum (num_of_int (clock ev))) timestamp = Inr age \<and>
            \<not> num_lt age (num_of_int 3600000) \<longrightarrow>
            fst (getUsdRubRate ev st) = Inr rate)"
proof (intro conjI impI allI)
  from failed obtain err
    where thrown: "fst (fetch_usd_rate ev st (num_of_int (clock ev))) = Inl err"
    using fetch_usd_rate_fails [of ev st "num_of_int (clock ev)"] by blast
  {
    assume absent: "\<not> truthy (localStorage st CACHE_KEY)"
    then have "check_cache ev (localStorage st CACHE_KEY) (num_of_int (clock ev)) = Inr None"
      by (simp add: check_cache_def)
    from getUsdRubRate_after_throw [OF this thrown] absent
    show "fst (getUsdRubRate ev st) = Inr (JNum (num_of_int 90))"
      by simp
  }
  {
    fix parsed rate timestamp age
    assume expired: "localStorage st CACHE_KEY = Some (JsonText parsed) \<and>
            get_prop parsed ''rate'' = Inr rate \<and>
            get_prop parsed ''timestamp'' = Inr timestamp \<and>
            js_sub ev (JNum (num_of_int (clock ev))) timestamp = Inr age \<and>
            \<not> num_lt age (num_of_int 3600000)"
    then have "check_cache ev (localStorage st CACHE_KEY) (num_of_int (clock ev)) = Inr None"
      by (simp add: check_cache_def CACHE_DURATION_hour)
    from getUsdRubRate_after_throw [OF this thrown] expired
    show "fst (getUsdRubRate ev st) = Inr rate"
      by simp
  }
qed

text \<open>
  A rejected fetch, a body that is not JSON and a body without the field \<open>Valute\<close>:
  each gives 90 on an empty \<open>localStorage\<close>, and the first two give the rate of an
  entry stored sixty-one minutes ago.
\<close>

theorem rate_failure_fallback_witness:
  "fst (getUsdRubRate (host_env 1700000000000 (\<lambda>url. Inl NetworkError)) page) =
     Inr (JNum (num_of_int 90))
   \<and> fst (getUsdRubRate (host_env 1700000000000 (\<lambda>url. Inl NetworkError))
        (with_cache (cached_rate (JNum (num_of_int 92)) 1699996340000) page)) =
     Inr (JNum (num_of_int 92))
   \<and> fst (getUsdRubRate
        (host_env 1700000000000
           (respond (not_json 200) (Inl NetworkError) (Inl NetworkError)))
        page) =
     Inr (JNum (num_of_int 90))
   \<and> fst (getUsdRubRate
        (host_env 1700000000000
           (respond (not_json 200) (Inl NetworkError) (Inl NetworkError)))
        (with_cache (cached_rate (JNum (num_of_int 92)) 1699996340000) page)) =
     Inr (JNum (num_of_int 92))
   \<and> fst (getUsdRubRate
        (host_env 1700000000000
           (respond (ok_json 200 error_body) (Inl NetworkError) (Inl NetworkError)))
        page) =
     Inr (JNum (num_of_int 90))"
proof -
  have down: "rate_refresh_fails (host_env 1700000000000 (\<lambda>url. Inl NetworkError))"
    by (simp add: rate_refresh_fails_def host_env_def)
  have garbled: "rate_refresh_fails
      (host_env 1700000000000
         (respond (not_json 200) (Inl NetworkError) (Inl NetworkError)))"
    by (simp add: rate_refresh_fails_def host_env_def respond_urls not_json_def)
  have no_field: "rate_refresh_fails
      (host_env 1700000000000
         (respond (ok_json 200 error_body) (Inl NetworkError) (Inl NetworkError)))"
    by (simp add: rate_refresh_fails_def host_env_def respond_urls ok_json_def error_body_def)
  have "fst (getUsdRubRate (host_env 1700000000000 (\<lambda>url. Inl NetworkError)) page) =
     Inr (JNum (num_of_int 90))"
    using rate_failure_fallback [OF down, of page] by (simp add: page_def)
  moreover
  have "fst (getUsdRubRate (host_env 1700000000000 (\<lambda>url. Inl NetworkError))
        (with_cache (cached_rate (JNum (num_of_int 92)) 1699996340000) page)) =
     Inr (JNum (num_of_int 92))"
    using rate_failure_fallback
        [OF down, of "with_cache (cached_rate (JNum (num_of_int 92)) 1699996340000) page"]
      hour_stale
    by (simp add: with_cache_def cached_rate_def page_def host_env_def js_sub_def)
  moreover
  have "fst (getUsdRubRate
        (host_env 1700000000000
           (respond (not_json 200) (Inl NetworkError) (Inl NetworkError)))
        page) =
     Inr (JNum (num_of_int 90))"
    using rate_failure_fallback [OF garbled, of page] by (simp add: page_def)
  moreover
  have "fst (getUsdRubRate
        (host_env 1700000000000
           (respond (not_json 200) (Inl NetworkError) (Inl NetworkError)))
        (with_cache (cached_rate (JNum (num_of_int 92)) 1699996340000) page)) =
     Inr (JNum (num_of_int 92))"
    using rate_failure_fallback
        [OF garbled, of "with_cache (cached_rate (JNum (num_of_int 92)) 1699996340000) page"]
      hour_stale
    by (simp add: with_cache_def cached_rate_def page_def host_env_def js_sub_def)
  moreover
  have "fst (getUsdRubRate
        (host_env 1700000000000
           (respond (ok_json 200 error_body) (Inl NetworkError) (Inl NetworkError)))
        page) =
     Inr (JNum (num_of_int 90))"
    using rate_failure_fallback [OF no_field, of page] by (simp add: page_def)
  ultimately show ?thesis by blast
qed

text \<open>
  C4. \<open>getUsdRubRate\<close> is claimed never to fail and always to return a number,
  whatever \<open>localStorage\<close> holds and whatever the network answers. The
  \<open>JSON.parse\<close> of line 23 stands before the \<open>try\<close> of line 31: a stored string that is
  not JSON rejects the promise with a \<open>SyntaxError\<close>, and a stored \<open>null\<close> rejects it
  with the \<open>TypeError\<close> of the destructuring. And a response without the field
  \<open>Value\<close> makes the function return \<open>undefined\<close>, which is not a number.
\<close>

theorem getUsdRubRate_can_fail:
  "fst (getUsdRubRate ev (with_cache Malformed st)) = Inl SyntaxError
   \<and> fst (getUsdRubRate ev (with_cache (JsonText JNull) st)) = Inl TypeError
   \<and> fst (getUsdRubRate
        (host_env 1700000000000
           (respond (ok_json 200 (JObj [(''Valute'', JObj [(''USD'', JObj [])])]))
              (Inl NetworkError) (Inl NetworkError)))
        page) = Inr JUndefined"
  by (simp add: getUsdRubRate_def check_cache_def with_cache_def Let_def fetch_usd_rate_def
        host_env_def respond_urls ok_json_def page_def)

section \<open>Writes of the cache entry\<close>

lemma sum_bind_eq_Inr: "sum_bind m f = Inr y \<longleftrightarrow> (\<exists>x. m = Inr x \<and> f x = Inr y)"
  by (cases m) simp_all

text \<open>The \<open>try\<close> of lines 31-43 writes when it completes, and only then.\<close>

lemma fetch_usd_rate_write:
  "(\<exists>err. fst (fetch_usd_rate ev st now) = Inl err \<and>
       localStorage (snd (fetch_usd_rate ev st now)) = localStorage st)
   \<or> (\<exists>response data valute usd usdRate.
        fetch ev USD_RUB_URL = Inr response \<and> json response = Inr data \<and>
        get_prop data ''Valute'' = Inr valute \<and> get_prop valute ''USD'' = Inr usd \<and>
        get_prop usd ''Value'' = Inr usdRate \<and>
        fst (fetch_usd_rate ev st now) = Inr usdRate \<and>
        localStorage (snd (fetch_usd_rate ev st now)) =
          (localStorage st)(CACHE_KEY \<mapsto>
             JsonText (json_roundtrip (JObj [(''rate'', usdRate), (''timestamp'', JNum now)]))))"
  by (auto simp: fetch_usd_rate_def Let_def sum_bind_eq_Inr split: sum.splits)

lemma rate_fallback_storage:
  "localStorage (snd (rate_fallback cachedData error st)) = localStorage st"
  by (simp add: rate_fallback_def Let_def)

lemma getUsdRubRate_write:
  "localStorage (snd (getUsdRubRate ev st)) = localStorage st
   \<or> (\<exists>response data valute usd usdRate.
        fetch ev USD_RUB_URL = Inr response \<and> json response = Inr data \<and>
        get_prop data ''Valute'' = Inr valute \<and> get_prop valute ''USD'' = Inr usd \<and>
        get_prop usd ''Value'' = Inr usdRate \<and>
        fst (getUsdRubRate ev st) = Inr usdRate \<and>
        localStorage (snd (getUsdRubRate ev st)) =
          (localStorage st)(CACHE_KEY \<mapsto>
             JsonText (json_roundtrip
               (JObj [(''rate'', usdRate), (''timestamp'', JNum (num_of_int (clock ev)))]))))"
proof (cases "check_cache ev (localStorage st CACHE_KEY) (num_of_int (clock ev))")
  case (Inl err)
  then show ?thesis by (simp add: getUsdRubRate_def Let_def)
next
  case (Inr hit)
  show ?thesis
  proof (cases hit)
    case (Some rate)
    with Inr show ?thesis by (simp add: getUsdRubRate_def Let_def)
  next
    case None
    from fetch_usd_rate_write [of ev st "num_of_int (clock ev)"] show ?thesis
    proof
      assume "\<exists>err. fst (fetch_usd_rate ev st (num_of_int (clock ev))) = Inl err \<and>
       localStorage (snd (fetch_usd_rate ev st (num_of_int (clock ev)))) = localStorage st"
      with Inr None have "localStorage (snd (getUsdRubRate ev st)) = localStorage st"
        by (cases "fetch_usd_rate ev st (num_of_int (clock ev))")
           (auto simp: getUsdRubRate_def Let_def rate_fallback_storage)
      then show ?thesis ..
    next
      assume "\<exists>response data valute usd usdRate.
        fetch ev USD_RUB_URL = Inr response \<and> json response = Inr data \<and>
        get_prop data ''Valute'' = Inr valute \<and> get_prop valute ''USD'' = Inr usd \<and>
        get_prop usd ''Value'' = Inr usdRate \<and>
        fst (fetch_usd_rate ev st (num_of_int (clock ev))) = Inr usdRate \<and>
        localStorage (snd (fetch_usd_rate ev st (num_of_int (clock ev)))) =
          (localStorage st)(CACHE_KEY \<mapsto>
             JsonText (json_roundtrip
               (JObj [(''rate'', usdRate), (''timestamp'', JNum (num_of_int (clock ev)))])))"
      then obtain response data valute usd usdRate where w:
        "fetch ev USD_RUB_URL = Inr response" "json response = Inr data"
        "get_prop data ''Valute'' = Inr valute" "get_prop valute ''USD'' = Inr usd"
        "get_prop usd ''Value'' = Inr usdRate"
        "fst (fetch_usd_rate ev st (num_of_int (clock ev))) = Inr usdRate"
        "localStorage (snd (fetch_usd_rate ev st (num_of_int (clock ev)))) =
          (localStorage st)(CACHE_KEY \<mapsto>
             JsonText (json_roundtrip
               (JObj [(''rate'', usdRate), (''timestamp'', JNum (num_of_int (clock ev)))])))"
        by blast
      from w(6,7) Inr None have "fst (getUsdRubRate ev st) = Inr usdRate \<and>
        localStorage (snd (getUsdRubRate ev st)) =
          (localStorage st)(CACHE_KEY \<mapsto>
             JsonText (json_roundtrip
               (JObj [(''rate'', usdRate), (''timestamp'', JNum (num_of_int (clock ev)))])))"
        by (cases "fetch_usd_rate ev st (num_of_int (clock ev))")
           (auto simp: getUsdRubRate_def Let_def)
      with w(1-5) show ?thesis by blast
    qed
  qed
qed

text \<open>The entry written for a positive finite rate satisfies the invariant.\<close>

lemma written_entry_invariant:
  assumes "positive_finite n" and "c \<le> t" and "\<bar>c\<bar> < 2 ^ 53" and "\<bar>t\<bar> < 2 ^ 53"
  shows "CachedRate_invariant (num_of_int t)
           (Some (JsonText (json_roundtrip
              (JObj [(''rate'', JNum n), (''timestamp'', JNum (num_of_int c))]))))"
  using assms
  by (simp add: CachedRate_invariant_def json_num_positive json_num_of_int num_le_of_int)

text \<open>
  C9, as stated, fails: the endpoint answers with the rate 0, and the entry written
  holds the rate 0, which is not a positive number.
\<close>

theorem cache_write_unvalidated:
  "localStorage (snd (getUsdRubRate
      (host_env 1700000000000
         (respond (ok_json 200 (rate_body (JNum (num_of_int 0))))
            (Inl NetworkError) (Inl NetworkError)))
      page)) CACHE_KEY = Some (cached_rate (JNum (num_of_int 0)) 1700000000000)
   \<and> \<not> CachedRate_invariant (num_of_int 1700000000000)
        (localStorage (snd (getUsdRubRate
           (host_env 1700000000000
              (respond (ok_json 200 (rate_body (JNum (num_of_int 0))))
                 (Inl NetworkError) (Inl NetworkError)))
           page)) CACHE_KEY)"
proof -
  have t: "json_num (num_of_int 1700000000000) = JNum (num_of_int 1700000000000)"
    by (rule json_num_of_int) simp
  have w: "localStorage (snd (getUsdRubRate
      (host_env 1700000000000
         (respond (ok_json 200 (rate_body (JNum (num_of_int 0))))
            (Inl NetworkError) (Inl NetworkError)))
      page)) CACHE_KEY = Some (cached_rate (JNum (num_of_int 0)) 1700000000000)"
    by (simp add: getUsdRubRate_def check_cache_def fetch_usd_rate_def Let_def host_env_def
          respond_urls ok_json_def rate_body_def page_def cached_rate_def t num_of_int_0)
  show ?thesis
    unfolding w by (simp add: CachedRate_invariant_def cached_rate_def num_of_int_0)
qed

text \<open>
  C9, as amended. A call of \<open>getUsdRubRate\<close> either leaves \<open>localStorage\<close> as it was
  or writes the JSON encoding of the entry made of the value of \<open>Valute.USD.Value\<close> of
  the response, unvalidated, and of the time read at line 19. The entry written satisfies the invariant of
  the data model, at any time from the time read on, whenever that value is a
  positive finite number (time values are integers below \<open>2\<^sup>5\<^sup>3\<close>).
\<close>

theorem cache_write_entry:
  "localStorage (snd (getUsdRubRate ev st)) = localStorage st
   \<or> (\<exists>response data valute usd usdRate.
        fetch ev USD_RUB_URL = Inr response \<and> json response = Inr data \<and>
        get_prop data ''Valute'' = Inr valute \<and> get_prop valute ''USD'' = Inr usd \<and>
        get_prop usd ''Value'' = Inr usdRate \<and>
        fst (getUsdRubRate ev st) = Inr usdRate \<and>
        localStorage (snd (getUsdRubRate ev st)) =
          (localStorage st)(CACHE_KEY \<mapsto>
             JsonText (json_roundtrip
               (JObj [(''rate'', usdRate), (''timestamp'', JNum (num_of_int (clock ev)))]))) \<and>
        (\<forall>n t. usdRate = JNum n \<and> positive_finite n \<and> clock ev \<le> t \<and>
               \<bar>clock ev\<bar> < 2 ^ 53 \<and> \<bar>t\<bar> < 2 ^ 53 \<longrightarrow>
           CachedRate_invariant (num_of_int t)
             (localStorage (snd (getUsdRubRate ev st)) CACHE_KEY)))"
proof -
  from getUsdRubRate_write [of ev st] show ?thesis
  proof
    assume "localStorage (snd (getUsdRubRate ev st)) = localStorage st"
    then show ?thesis ..
  next
    assume "\<exists>response data valute usd usdRate.
        fetch ev USD_RUB_URL = Inr response \<and> json response = Inr data \<and>
        get_prop data ''Valute'' = Inr valute \<and> get_prop valute ''USD'' = Inr usd \<and>
        get_prop usd ''Value'' = Inr usdRate \<and>
        fst (getUsdRubRate ev st) = Inr usdRate \<and>
        localStorage (snd (getUsdRubRate ev st)) =
          (localStorage st)(CACHE_KEY \<mapsto>
             JsonText (json_roundtrip
               (JObj [(''rate'', usdRate), (''timestamp'', JNum (num_of_int (clock ev)))])))"
    then obtain response data valute usd usdRate where w:
        "fetch ev USD_RUB_URL = Inr response" "json response = Inr data"
        "get_prop data ''Valute'' = Inr valute" "get_prop valute ''USD'' = Inr usd"
        "get_prop usd ''Value'' = Inr usdRate"
        "fst (getUsdRubRate ev st) = Inr usdRate"
        "localStorage (snd (getUsdRubRate ev st)) =
          (localStorage st)(CACHE_KEY \<mapsto>
             JsonText (json_roundtrip
               (JObj [(''rate'', usdRate), (''timestamp'', JNum (num_of_int (clock ev)))])))"
      by blast
    have "\<forall>n t. usdRate = JNum n \<and> positive_finite n \<and> clock ev \<le> t \<and>
               \<bar>clock ev\<bar> < 2 ^ 53 \<and> \<bar>t\<bar> < 2 ^ 53 \<longrightarrow>
           CachedRate_invariant (num_of_int t)
             (localStorage (snd (getUsdRubRate ev st)) CACHE_KEY)"
      unfolding w(7) using written_entry_invariant by (simp del: json_roundtrip.simps)
    with w show ?thesis by blast
  qed
qed

text \<open>
  The endpoint answers with the rate 92: the entry written holds 92 and the time
  read, and satisfies the invariant one minute later.
\<close>

theorem cache_write_entry_witness:
  "localStorage (snd (getUsdRubRate
      (host_env 1700000000000
         (respond (ok_json 200 (rate_body (JNum (num_of_int 92))))
            (Inl NetworkError) (Inl NetworkError)))
      page)) CACHE_KEY = Some (cached_rate (JNum (num_of_int 92)) 1700000000000)
   \<and> CachedRate_invariant (num_of_int 1700000060000)
        (localStorage (snd (getUsdRubRate
           (host_env 1700000000000
              (respond (ok_json 200 (rate_body (JNum (num_of_int 92))))
                 (Inl NetworkError) (Inl NetworkError)))
           page)) CACHE_KEY)"
proof -
  have t: "json_num (num_of_int 1700000000000) = JNum (num_of_int 1700000000000)"
    by (rule json_num_of_int) simp
  have r: "num_of_int 92 = Finite False 6473924464345088 (- 46)"
    by (simp add: num_eval split del: if_split)
  have w: "localStorage (snd (getUsdRubRate
      (host_env 1700000000000
         (respond (ok_json 200 (rate_body (JNum (num_of_int 92))))
            (Inl NetworkError) (Inl NetworkError)))
      page)) CACHE_KEY = Some (cached_rate (JNum (num_of_int 92)) 1700000000000)"
    by (simp add: getUsdRubRate_def check_cache_def fetch_usd_rate_def Let_def host_env_def
          respond_urls ok_json_def rate_body_def page_def cached_rate_def t r)
  have "localStorage (snd (getUsdRubRate
      (host_env 1700000000000
         (respond (ok_json 200 (rate_body (JNum (num_of_int 92))))
            (Inl NetworkError) (Inl NetworkError)))
      page)) \<noteq> localStorage page"
    using w by (auto simp: page_def)
  with cache_write_entry [of "host_env 1700000000000
         (respond (ok_json 200 (rate_body (JNum (num_of_int 92))))
            (Inl NetworkError) (Inl NetworkError))" page]
  have "CachedRate_invariant (num_of_int 1700000060000)
        (localStorage (snd (getUsdRubRate
           (host_env 1700000000000
              (respond (ok_json 200 (rate_body (JNum (num_of_int 92))))
                 (Inl NetworkError) (Inl NetworkError)))
           page)) CACHE_KEY)"
    by (auto simp: host_env_def respond_urls ok_json_def rate_body_def r)
  with w show ?thesis by simp
qed

section \<open>Formatting of non-numbers\<close>

text \<open>
  C8. For every argument that is not a number, and for \<open>NaN\<close>, \<open>formatRub\<close> returns
  the string it returns for 0: it formats zero, and neither throws nor formats
  \<open>NaN\<close>.
\<close>

theorem formatRub_non_number:
  assumes "(\<forall>n. v \<noteq> JNum n) \<or> v = JNum NaN"
  shows "formatRub rt v = formatRub rt (JNum (num_of_int 0))
       \<and> formatRub rt v = toLocaleString_ruRU rt (num_of_int 0) 2 2"
  using assms by (cases v) (auto simp: formatRub_def isNaN_def num_of_int_0)

text \<open>
  \<open>formatRub(NaN)\<close> and \<open>formatRub("x")\<close> on the scenario host, which would format
  \<open>NaN\<close> as \<open>NaN\<close>: both are the formatted zero.
\<close>

theorem formatRub_non_number_witness:
  "formatRub (host_env 0 (\<lambda>url. Inl NetworkError)) (JNum NaN) = ''0,00''
   \<and> formatRub (host_env 0 (\<lambda>url. Inl NetworkError)) (JStr ''x'') = ''0,00''
   \<and> formatRub (host_env 0 (\<lambda>url. Inl NetworkError)) (JNum (num_of_int 0)) = ''0,00''"
proof -
  have z: "toLocaleString_ruRU (host_env 0 (\<lambda>url. Inl NetworkError)) (num_of_int 0) 2 2 =
      ''0,00''"
    by (simp add: host_env_def host_format_def num_of_int_0 numeral_2_eq_2)
  from formatRub_non_number [of "JNum NaN" "host_env 0 (\<lambda>url. Inl NetworkError)"]
    formatRub_non_number [of "JStr ''x''" "host_env 0 (\<lambda>url. Inl NetworkError)"]
  show ?thesis
    unfolding z by auto
qed

section \<open>The Bitcoin data\<close>

text \<open>Reading a field throws exactly on the bodies that are not readable.\<close>

lemma get_prop_readable:
  "\<not> unreadable data \<Longrightarrow> \<exists>v. get_prop data k = Inr v"
  by (cases data) (auto simp: unreadable_def split: option.splits)

lemma get_prop_unreadable:
  "unreadable data \<Longrightarrow> get_prop data k = Inl TypeError"
  by (auto simp: unreadable_def)

text \<open>What \<open>getBitcoinData\<close> does once the primary attempt has thrown.\<close>

lemma getBitcoinData_after_failure:
  assumes "fetch_primary ev st = (Inl e, st1)"
  shows "fetched (snd (getBitcoinData ev st)) = fetched st1 @ [FALLBACK_BITCOIN_USD_URL]
       \<and> fst (getBitcoinData ev st) =
           (case fetch ev FALLBACK_BITCOIN_USD_URL of
              Inl err \<Rightarrow> Inl ErrorNoBitcoinData
            | Inr response \<Rightarrow>
                (case json response of
                   Inl err \<Rightarrow> Inl ErrorNoBitcoinData
                 | Inr data \<Rightarrow>
                     (case shape_B data of
                        Inl err \<Rightarrow> Inl ErrorNoBitcoinData
                      | Inr btcData \<Rightarrow> Inr btcData)))"
  using assms
  by (auto simp: getBitcoinData_def fetch_fallback_def shape_B_def Let_def
        split: sum.splits prod.splits)

text \<open>The primary attempt throws exactly on the responses of \<open>primary_fails\<close>.\<close>

lemma fetch_primary_fails:
  assumes "primary_fails ev"
  shows "\<exists>e st1. fetch_primary ev st = (Inl e, st1)
           \<and> fetched st1 = fetched st @ [BITCOIN_USD_URL]"
proof (cases "fetch ev BITCOIN_USD_URL")
  case (Inl err)
  then show ?thesis by (simp add: fetch_primary_def)
next
  case (Inr response)
  show ?thesis
  proof (cases "status response = 502")
    case True
    with Inr show ?thesis by (simp add: fetch_primary_def)
  next
    case False
    with Inr assms
    have "(\<exists>err. json response = Inl err) \<or> (\<exists>data. json response = Inr data \<and> unreadable data)"
      by (auto simp: primary_fails_def split: sum.splits)
    with Inr False show ?thesis
      by (auto simp: fetch_primary_def Let_def get_prop_unreadable)
  qed
qed

lemma fetch_primary_succeeds:
  assumes "\<not> primary_fails ev"
  shows "\<exists>response data last total_fees.
           fetch ev BITCOIN_USD_URL = Inr response \<and> json response = Inr data \<and>
           get_prop data ''last'' = Inr last \<and> get_prop data ''total_fees'' = Inr total_fees \<and>
           fst (fetch_primary ev st) = Inr \<lparr>priceUsd = last, volumeBtc = total_fees\<rparr> \<and>
           fetched (snd (fetch_primary ev st)) = fetched st @ [BITCOIN_USD_URL]"
proof -
  from assms obtain response data where r: "fetch ev BITCOIN_USD_URL = Inr response"
    and s: "status response \<noteq> 502" and d: "json response = Inr data"
    and n: "\<not> unreadable data"
    by (auto simp: primary_fails_def split: sum.splits)
  from get_prop_readable [OF n, of "''last''"] get_prop_readable [OF n, of "''total_fees''"]
  obtain last total_fees where "get_prop data ''last'' = Inr last"
    "get_prop data ''total_fees'' = Inr total_fees" by blast
  with r s d show ?thesis
    by (simp add: fetch_primary_def Let_def)
qed

text \<open>
  C5, as amended. For every primary response that is a rejected fetch, the status
  502, a body that is not JSON or a body whose fields cannot be read,
  \<open>getBitcoinData\<close> fetches the secondary endpoint and maps its body with shape B
  before giving up. Every other primary response, whatever its status, is not a
  failure: its body is mapped with shape A and the secondary endpoint is not fetched.
\<close>

theorem fallback_on_primary_failure:
  "(primary_fails ev \<longrightarrow>
      fetched (snd (getBitcoinData ev st)) =
        fetched st @ [BITCOIN_USD_URL, FALLBACK_BITCOIN_USD_URL] \<and>
      fst (getBitcoinData ev st) =
        (case fetch ev FALLBACK_BITCOIN_USD_URL of
           Inl err \<Rightarrow> Inl ErrorNoBitcoinData
         | Inr response \<Rightarrow>
             (case json response of
                Inl err \<Rightarrow> Inl ErrorNoBitcoinData
              | Inr data \<Rightarrow>
                  (case shape_B data of
                     Inl err \<Rightarrow> Inl ErrorNoBitcoinData
                   | Inr btcData \<Rightarrow> Inr btcData))))
   \<and> (\<not> primary_fails ev \<longrightarrow>
      fetched (snd (getBitcoinData ev st)) = fetched st @ [BITCOIN_USD_URL] \<and>
      (\<exists>response data last total_fees.
         fetch ev BITCOIN_USD_URL = Inr response \<and> json response = Inr data \<and>
         get_prop data ''last'' = Inr last \<and> get_prop data ''total_fees'' = Inr total_fees \<and>
         fst (getBitcoinData ev st) = Inr \<lparr>priceUsd = last, volumeBtc = total_fees\<rparr>))"
proof (intro conjI impI)
  assume f: "primary_fails ev"
  from fetch_primary_fails [OF f, of st] obtain e st1
    where p: "fetch_primary ev st = (Inl e, st1)"
      and q: "fetched st1 = fetched st @ [BITCOIN_USD_URL]" by blast
  from getBitcoinData_after_failure [OF p] q
  show "fetched (snd (getBitcoinData ev st)) =
        fetched st @ [BITCOIN_USD_URL, FALLBACK_BITCOIN_USD_URL]" by simp
  from getBitcoinData_after_failure [OF p]
  show "fst (getBitcoinData ev st) =
        (case fetch ev FALLBACK_BITCOIN_USD_URL of
           Inl err \<Rightarrow> Inl ErrorNoBitcoinData
         | Inr response \<Rightarrow>
             (case json response of
                Inl err \<Rightarrow> Inl ErrorNoBitcoinData
              | Inr data \<Rightarrow>
                  (case shape_B data of
                     Inl err \<Rightarrow> Inl ErrorNoBitcoinData
                   | Inr btcData \<Rightarrow> Inr btcData)))" by simp
next
  assume ok: "\<not> primary_fails ev"
  from fetch_primary_succeeds [OF ok, of st] obtain response data last total_fees
    where *: "fetch ev BITCOIN_USD_URL = Inr response" "json response = Inr data"
      "get_prop data ''last'' = Inr last" "get_prop data ''total_fees'' = Inr total_fees"
      "fst (fetch_primary ev st) = Inr \<lparr>priceUsd = last, volumeBtc = total_fees\<rparr>"
      "fetched (snd (fetch_primary ev st)) = fetched st @ [BITCOIN_USD_URL]" by blast
  then show "fetched (snd (getBitcoinData ev st)) = fetched st @ [BITCOIN_USD_URL]"
    by (cases "fetch_primary ev st") (simp add: getBitcoinData_def)
  from * show "\<exists>response data last total_fees.
         fetch ev BITCOIN_USD_URL = Inr response \<and> json response = Inr data \<and>
         get_prop data ''last'' = Inr last \<and> get_prop data ''total_fees'' = Inr total_fees \<and>
         fst (getBitcoinData ev st) = Inr \<lparr>priceUsd = last, volumeBtc = total_fees\<rparr>"
    by (cases "fetch_primary ev st") (simp add: getBitcoinData_def)
qed

text \<open>
  C5, as stated, fails: the primary endpoint answers with the status 500, which is
  not a 2xx status, and a JSON body; the body is mapped with shape A (both fields
  are \<open>undefined\<close>) and the secondary endpoint is not fetched.
\<close>

theorem fallback_skipped_on_500:
  "\<not> is_2xx 500
   \<and> fetched (snd (getBitcoinData
        (host_env 1700000000000
           (respond (Inl NetworkError) (ok_json 500 error_body) (ok_json 200 stats_body)))
        page)) = [BITCOIN_USD_URL]
   \<and> fst (getBitcoinData
        (host_env 1700000000000
           (respond (Inl NetworkError) (ok_json 500 error_body) (ok_json 200 stats_body)))
        page) = Inr \<lparr>priceUsd = JUndefined, volumeBtc = JUndefined\<rparr>"
  by (simp add: is_2xx_def getBitcoinData_def fetch_primary_def Let_def host_env_def
        respond_urls ok_json_def error_body_def page_def)

text \<open>
  A rejected primary fetch is followed by the secondary endpoint and its shape-B
  mapping; the status 500 with a JSON body is not.
\<close>

theorem fallback_on_primary_failure_witness:
  "fetched (snd (getBitcoinData
      (host_env 1700000000000
         (respond (Inl NetworkError) (Inl NetworkError) (ok_json 200 stats_body)))
      page)) = [BITCOIN_USD_URL, FALLBACK_BITCOIN_USD_URL]
   \<and> fst (getBitcoinData
      (host_env 1700000000000
         (respond (Inl NetworkError) (Inl NetworkError) (ok_json 200 stats_body)))
      page) = Inr \<lparr>priceUsd = JNum (num_of_int 50000), volumeBtc = JNum (num_of_int 2)\<rparr>
   \<and> fetched (snd (getBitcoinData
      (host_env 1700000000000
         (respond (Inl NetworkError) (ok_json 500 error_body) (ok_json 200 stats_body)))
      page)) = [BITCOIN_USD_URL]"
  using fallback_on_primary_failure
      [of "host_env 1700000000000
         (respond (Inl NetworkError) (Inl NetworkError) (ok_json 200 stats_body))" page]
    fallback_on_primary_failure
      [of "host_env 1700000000000
         (respond (Inl NetworkError) (ok_json 500 error_body) (ok_json 200 stats_body))" page]
  by (simp add: primary_fails_def unreadable_def host_env_def respond_urls ok_json_def
        error_body_def stats_body_def shape_B_def page_def)





section \<open>The refresh cycle\<close>

text \<open>
  The two fetching functions leave the globals and the page alone, and what they
  settle with does not depend on them.
\<close>

lemma fetch_usd_rate_frame:
  "previousTotalRubValue (snd (fetch_usd_rate ev st now)) = previousTotalRubValue st"
  "isFetching (snd (fetch_usd_rate ev st now)) = isFetching st"
  "tbody (snd (fetch_usd_rate ev st now)) = tbody st"
  "updateTimeElement (snd (fetch_usd_rate ev st now)) = updateTimeElement st"
  by (simp_all add: fetch_usd_rate_def Let_def split: sum.splits)

lemma getUsdRubRate_frame:
  "previousTotalRubValue (snd (getUsdRubRate ev st)) = previousTotalRubValue st"
  "isFetching (snd (getUsdRubRate ev st)) = isFetching st"
  "tbody (snd (getUsdRubRate ev st)) = tbody st"
  "updateTimeElement (snd (getUsdRubRate ev st)) = updateTimeElement st"
  using fetch_usd_rate_frame [of ev st "num_of_int (clock ev)"]
  by (auto simp: getUsdRubRate_def rate_fallback_def Let_def
        split: sum.splits option.splits prod.splits)

lemma fetch_primary_frame:
  "previousTotalRubValue (snd (fetch_primary ev st)) = previousTotalRubValue st"
  "isFetching (snd (fetch_primary ev st)) = isFetching st"
  "tbody (snd (fetch_primary ev st)) = tbody st"
  "updateTimeElement (snd (fetch_primary ev st)) = updateTimeElement st"
  "localStorage (snd (fetch_primary ev st)) = localStorage st"
  by (simp_all add: fetch_primary_def Let_def split: sum.splits)

lemma fetch_fallback_frame:
  "previousTotalRubValue (snd (fetch_fallback ev st)) = previousTotalRubValue st"
  "isFetching (snd (fetch_fallback ev st)) = isFetching st"
  "tbody (snd (fetch_fallback ev st)) = tbody st"
  "updateTimeElement (snd (fetch_fallback ev st)) = updateTimeElement st"
  "localStorage (snd (fetch_fallback ev st)) = localStorage st"
  by (simp_all add: fetch_fallback_def Let_def split: sum.splits)

lemma getBitcoinData_frame:
  "previousTotalRubValue (snd (getBitcoinData ev st)) = previousTotalRubValue st"
  "isFetching (snd (getBitcoinData ev st)) = isFetching st"
  "tbody (snd (getBitcoinData ev st)) = tbody st"
  "updateTimeElement (snd (getBitcoinData ev st)) = updateTimeElement st"
  "localStorage (snd (getBitcoinData ev st)) = localStorage st"
proof -
  obtain r1 st1 where p: "fetch_primary ev st = (r1, st1)"
    by (cases "fetch_primary ev st")
  note fp = fetch_primary_frame [of ev st, unfolded p, simplified]
  have "previousTotalRubValue (snd (getBitcoinData ev st)) = previousTotalRubValue st
      \<and> isFetching (snd (getBitcoinData ev st)) = isFetching st
      \<and> tbody (snd (getBitcoinData ev st)) = tbody st
      \<and> updateTimeElement (snd (getBitcoinData ev st)) = updateTimeElement st
      \<and> localStorage (snd (getBitcoinData ev st)) = localStorage st"
  proof (cases r1)
    case (Inr btcData)
    with p fp show ?thesis by (simp add: getBitcoinData_def)
  next
    case (Inl e)
    obtain r2 st2
      where f: "fetch_fallback ev (st1\<lparr>console := console st1 @ [WarnPrimary e]\<rparr>) = (r2, st2)"
      by (cases "fetch_fallback ev (st1\<lparr>console := console st1 @ [WarnPrimary e]\<rparr>)")
    note ff = fetch_fallback_frame
      [of ev "st1\<lparr>console := console st1 @ [WarnPrimary e]\<rparr>", unfolded f, simplified]
    from p Inl f fp ff show ?thesis
      by (cases r2) (simp_all add: getBitcoinData_def Let_def)
  qed
  then show "previousTotalRubValue (snd (getBitcoinData ev st)) = previousTotalRubValue st"
    and "isFetching (snd (getBitcoinData ev st)) = isFetching st"
    and "tbody (snd (getBitcoinData ev st)) = tbody st"
    and "updateTimeElement (snd (getBitcoinData ev st)) = updateTimeElement st"
    and "localStorage (snd (getBitcoinData ev st)) = localStorage st"
    by simp_all
qed

text \<open>What the two functions settle with depends on the state through the cache entry only.\<close>

lemma fetch_usd_rate_result:
  "fst (fetch_usd_rate ev st now) = fst (fetch_usd_rate ev st' now)"
  by (simp add: fetch_usd_rate_def Let_def split: sum.splits)

lemma getUsdRubRate_result:
  assumes "localStorage st CACHE_KEY = localStorage st' CACHE_KEY"
  shows "fst (getUsdRubRate ev st) = fst (getUsdRubRate ev st')"
proof -
  obtain r1 st1 where a: "fetch_usd_rate ev st (num_of_int (clock ev)) = (r1, st1)"
    by (cases "fetch_usd_rate ev st (num_of_int (clock ev))")
  obtain r2 st2 where b: "fetch_usd_rate ev st' (num_of_int (clock ev)) = (r2, st2)"
    by (cases "fetch_usd_rate ev st' (num_of_int (clock ev))")
  from fetch_usd_rate_result [of ev st "num_of_int (clock ev)" st'] a b have "r1 = r2" by simp
  with a b assms show ?thesis
    by (simp add: getUsdRubRate_def rate_fallback_def Let_def
          split: sum.splits option.splits)
qed

lemma fetch_primary_result: "fst (fetch_primary ev st) = fst (fetch_primary ev st')"
  by (simp add: fetch_primary_def Let_def split: sum.splits)

lemma fetch_fallback_result: "fst (fetch_fallback ev st) = fst (fetch_fallback ev st')"
  by (simp add: fetch_fallback_def Let_def split: sum.splits)

lemma getBitcoinData_result: "fst (getBitcoinData ev st) = fst (getBitcoinData ev st')"
proof -
  obtain r1 st1 where a: "fetch_primary ev st = (r1, st1)" by (cases "fetch_primary ev st")
  obtain r2 st2 where b: "fetch_primary ev st' = (r2, st2)" by (cases "fetch_primary ev st'")
  from fetch_primary_result [of ev st st'] a b have r: "r1 = r2" by simp
  show ?thesis
  proof (cases r1)
    case (Inr btcData)
    with r have "r2 = Inr btcData" by simp
    with a b Inr show ?thesis by (simp add: getBitcoinData_def)
  next
    case (Inl e)
    with r have r2: "r2 = Inl e" by simp
    obtain r3 st3
      where c: "fetch_fallback ev (st1\<lparr>console := console st1 @ [WarnPrimary e]\<rparr>) = (r3, st3)"
      by (cases "fetch_fallback ev (st1\<lparr>console := console st1 @ [WarnPrimary e]\<rparr>)")
    obtain r4 st4
      where d: "fetch_fallback ev (st2\<lparr>console := console st2 @ [WarnPrimary e]\<rparr>) = (r4, st4)"
      by (cases "fetch_fallback ev (st2\<lparr>console := console st2 @ [WarnPrimary e]\<rparr>)")
    from fetch_fallback_result
      [of ev "st1\<lparr>console := console st1 @ [WarnPrimary e]\<rparr>"
          "st2\<lparr>console := console st2 @ [WarnPrimary e]\<rparr>"] c d
    have "r4 = r3" by simp
    with a b r2 Inl c d show ?thesis
      by (cases r3) (simp_all add: getBitcoinData_def Let_def)
  qed
qed

text \<open>
  C7. Whenever the flag \<open>isFetching\<close> is set, a call of \<open>updateCryptoTable\<close> returns
  at line 131: it writes the console line of line 130 and changes nothing else, so
  the previous total stays, nothing is fetched, the flag stays set, and nothing is
  kept of the call for later.
\<close>

theorem overlap_guard:
  assumes "isFetching st"
  shows "updateCryptoTable ev st = (None, st\<lparr>console := console st @ [LogSkipped]\<rparr>)
       \<and> previousTotalRubValue (snd (updateCryptoTable ev st)) = previousTotalRubValue st
       \<and> fetched (snd (updateCryptoTable ev st)) = fetched st
       \<and> isFetching (snd (updateCryptoTable ev st))"
  using assms by (simp add: updateCryptoTable_def enter_update_def)

text \<open>
  The page in flight, that is, after lines 129-139 of a first call: a second call
  only writes to the console.
\<close>

theorem overlap_guard_witness:
  "isFetching (snd (enter_update page))
   \<and> updateCryptoTable (host_env 1700000000000 (\<lambda>url. Inl NetworkError))
       (snd (enter_update page)) =
     (None, (snd (enter_update page))\<lparr>console := [LogSkipped]\<rparr>)"
proof -
  have f: "isFetching (snd (enter_update page))"
    by (simp add: enter_update_def page_def Let_def)
  have c: "console (snd (enter_update page)) = []"
    by (simp add: enter_update_def page_def Let_def)
  from overlap_guard [OF f, of "host_env 1700000000000 (\<lambda>url. Inl NetworkError)"] f c
  show ?thesis by simp
qed

lemma enter_update_idle:
  assumes "\<not> isFetching st" and "tbody st = Some rows"
  shows "enter_update st = (Awaiting, st\<lparr>isFetching := True, tbody := Some LoadingRow\<rparr>)"
  using assms by (simp add: enter_update_def Let_def)

lemma catch_update_frame:
  "previousTotalRubValue (snd (catch_update ev error st)) = previousTotalRubValue st"
  "tbody (snd (catch_update ev error st)) = Some (ErrorRow error)"
  "updateTimeElement st = Some caption \<Longrightarrow>
     updateTimeElement (snd (catch_update ev error st)) =
       Some (UpdateError (toLocaleTimeString ev (clock_render ev)))"
  by (simp_all add: catch_update_def Let_def split: option.splits)

text \<open>When one of the two calls is rejected, the \<open>try\<close> throws before line 169.\<close>

lemma try_update_rejected:
  assumes "fst (getUsdRubRate ev st) = Inl error \<or> fst (getBitcoinData ev st) = Inl error"
  shows "\<exists>e. fst (try_update ev st) = Some e"
    and "previousTotalRubValue (snd (try_update ev st)) = previousTotalRubValue st"
    and "updateTimeElement (snd (try_update ev st)) = updateTimeElement st"
proof -
  have b: "fst (getBitcoinData ev (snd (getUsdRubRate ev st))) = fst (getBitcoinData ev st)"
    by (rule getBitcoinData_result)
  have g: "previousTotalRubValue (snd (getBitcoinData ev (snd (getUsdRubRate ev st)))) =
      previousTotalRubValue st"
    "updateTimeElement (snd (getBitcoinData ev (snd (getUsdRubRate ev st)))) =
      updateTimeElement st"
    by (simp_all add: getBitcoinData_frame getUsdRubRate_frame)
  show "\<exists>e. fst (try_update ev st) = Some e"
    using assms b by (auto simp: try_update_def Let_def split: sum.splits)
  show "previousTotalRubValue (snd (try_update ev st)) = previousTotalRubValue st"
    using assms b g by (auto simp: try_update_def Let_def split: sum.splits)
  show "updateTimeElement (snd (try_update ev st)) = updateTimeElement st"
    using assms b g by (auto simp: try_update_def Let_def split: sum.splits)
qed

lemma settle_update_rejected:
  assumes "fst (getUsdRubRate ev st) = Inl error \<or> fst (getBitcoinData ev st) = Inl error"
  shows "previousTotalRubValue (snd (settle_update ev st)) = previousTotalRubValue st"
    and "\<not> isFetching (snd (settle_update ev st))"
    and "\<exists>e. tbody (snd (settle_update ev st)) = Some (ErrorRow e)"
    and "updateTimeElement st = Some caption \<Longrightarrow>
           \<exists>caption'. updateTimeElement (snd (settle_update ev st)) = Some caption'"
proof -
  obtain r st1 where t: "try_update ev st = (r, st1)" by (cases "try_update ev st")
  from try_update_rejected [OF assms] t obtain e where r: "r = Some e"
    and p: "previousTotalRubValue st1 = previousTotalRubValue st"
    and u: "updateTimeElement st1 = updateTimeElement st" by auto
  obtain r2 st2 where c: "catch_update ev e st1 = (r2, st2)" by (cases "catch_update ev e st1")
  note cf = catch_update_frame [where ev = ev and error = e and st = st1, unfolded c, simplified]
  from t r c have s: "settle_update ev st = (r2, st2\<lparr>isFetching := False\<rparr>)"
    by (simp add: settle_update_def)
  show "previousTotalRubValue (snd (settle_update ev st)) = previousTotalRubValue st"
    using s cf p by simp
  show "\<not> isFetching (snd (settle_update ev st))"
    using s by simp
  show "\<exists>e. tbody (snd (settle_update ev st)) = Some (ErrorRow e)"
    using s cf by simp
  show "\<exists>caption'. updateTimeElement (snd (settle_update ev st)) = Some caption'"
    if "updateTimeElement st = Some caption"
    using s cf(3) [where caption = caption] u that by simp
qed


text \<open>A cycle in which both calls are fulfilled and the computation does not throw.\<close>

lemma settle_update_fulfilled:
  assumes status: "updateTimeElement st = Some caption"
      and rate: "fst (getUsdRubRate ev st) = Inr rate"
      and btc: "fst (getBitcoinData ev st) = Inr btcData"
      and snap: "compute_snapshot ev rate btcData (previousTotalRubValue st) = Inr s"
  shows "previousTotalRubValue (snd (settle_update ev st)) = Some (totalRubValue s)"
    and "tbody (snd (settle_update ev st)) =
           Some (DataRow (formatRub ev (JNum (marketPriceRub s)))
                   (formatBtc ev (volumeBtc btcData))
                   (formatRub ev (JNum (totalRubValue s)))
                   (changeClass s)
                   (changeSign s @ formatRub ev (JNum (changeRubValue s))))"
proof -
  have b: "fst (getBitcoinData ev (snd (getUsdRubRate ev st))) = Inr btcData"
    using btc getBitcoinData_result [of ev "snd (getUsdRubRate ev st)" st] by simp
  have g: "previousTotalRubValue (snd (getBitcoinData ev (snd (getUsdRubRate ev st)))) =
      previousTotalRubValue st"
    "updateTimeElement (snd (getBitcoinData ev (snd (getUsdRubRate ev st)))) = Some caption"
    by (simp_all add: getBitcoinData_frame getUsdRubRate_frame status)
  show "previousTotalRubValue (snd (settle_update ev st)) = Some (totalRubValue s)"
    using rate b g snap by (simp add: settle_update_def try_update_def Let_def)
  show "tbody (snd (settle_update ev st)) =
           Some (DataRow (formatRub ev (JNum (marketPriceRub s)))
                   (formatBtc ev (volumeBtc btcData))
                   (formatRub ev (JNum (totalRubValue s)))
                   (changeClass s)
                   (changeSign s @ formatRub ev (JNum (changeRubValue s))))"
    using rate b g snap by (simp add: settle_update_def try_update_def Let_def)
qed

text \<open>
  C10. If one of the two calls of line 143 is rejected in a cycle that has started,
  \<open>updateCryptoTable\<close> leaves \<open>previousTotalRubValue\<close> as it was before the cycle and
  resets \<open>isFetching\<close> to false. So in the next cycle whose two calls are fulfilled,
  the change computed and shown is taken against the total of the last successful
  cycle.
\<close>

theorem failed_cycle_keeps_previous_total:
  assumes idle: "\<not> isFetching st"
      and body: "tbody st = Some rows"
      and rejected: "fst (getUsdRubRate ev st) = Inl error \<or> fst (getBitcoinData ev st) = Inl error"
  shows "previousTotalRubValue (snd (updateCryptoTable ev st)) = previousTotalRubValue st
       \<and> \<not> isFetching (snd (updateCryptoTable ev st))
       \<and> (\<forall>ev' caption rate btcData s.
             updateTimeElement st = Some caption \<and>
             fst (getUsdRubRate ev' (snd (updateCryptoTable ev st))) = Inr rate \<and>
             fst (getBitcoinData ev' (snd (updateCryptoTable ev st))) = Inr btcData \<and>
             compute_snapshot ev' rate btcData (previousTotalRubValue st) = Inr s \<longrightarrow>
             previousTotalRubValue
               (snd (updateCryptoTable ev' (snd (updateCryptoTable ev st)))) =
               Some (totalRubValue s) \<and>
             tbody (snd (updateCryptoTable ev' (snd (updateCryptoTable ev st)))) =
               Some (DataRow (formatRub ev' (JNum (marketPriceRub s)))
                       (formatBtc ev' (volumeBtc btcData))
                       (formatRub ev' (JNum (totalRubValue s)))
                       (changeClass s)
                       (changeSign s @ formatRub ev' (JNum (changeRubValue s)))))"
proof -
  define st1 where "st1 = st\<lparr>isFetching := True, tbody := Some LoadingRow\<rparr>"
  define st' where "st' = snd (updateCryptoTable ev st)"
  have run: "updateCryptoTable ev st = settle_update ev st1"
    using enter_update_idle [OF idle body] by (simp add: updateCryptoTable_def st1_def)
  have "fst (getUsdRubRate ev st1) = fst (getUsdRubRate ev st)"
    by (rule getUsdRubRate_result) (simp add: st1_def)
  moreover have "fst (getBitcoinData ev st1) = fst (getBitcoinData ev st)"
    by (rule getBitcoinData_result)
  ultimately have rejected1:
    "fst (getUsdRubRate ev st1) = Inl error \<or> fst (getBitcoinData ev st1) = Inl error"
    using rejected by simp
  note failed = settle_update_rejected [OF rejected1]
  have kept: "previousTotalRubValue st' = previousTotalRubValue st"
    using failed(1) by (simp add: st'_def run st1_def)
  have reset: "\<not> isFetching st'"
    using failed(2) by (simp add: st'_def run)
  obtain e where row: "tbody st' = Some (ErrorRow e)"
    using failed(3) by (auto simp: st'_def run)
  have "previousTotalRubValue (snd (updateCryptoTable ev' st')) = Some (totalRubValue s) \<and>
      tbody (snd (updateCryptoTable ev' st')) =
        Some (DataRow (formatRub ev' (JNum (marketPriceRub s)))
                (formatBtc ev' (volumeBtc btcData))
                (formatRub ev' (JNum (totalRubValue s)))
                (changeClass s)
                (changeSign s @ formatRub ev' (JNum (changeRubValue s))))"
    if status: "updateTimeElement st = Some caption"
      and rate: "fst (getUsdRubRate ev' st') = Inr rate"
      and btc: "fst (getBitcoinData ev' st') = Inr btcData"
      and snap: "compute_snapshot ev' rate btcData (previousTotalRubValue st) = Inr s"
    for ev' caption rate btcData s
  proof -
    define st2 where "st2 = st'\<lparr>isFetching := True, tbody := Some LoadingRow\<rparr>"
    have run2: "updateCryptoTable ev' st' = settle_update ev' st2"
      using enter_update_idle [OF reset row] by (simp add: updateCryptoTable_def st2_def)
    have "updateTimeElement st1 = Some caption"
      using status by (simp add: st1_def)
    from failed(4) [OF this] obtain caption' where "updateTimeElement st' = Some caption'"
      by (auto simp: st'_def run)
    then have status2: "updateTimeElement st2 = Some caption'"
      by (simp add: st2_def)
    have rate2: "fst (getUsdRubRate ev' st2) = Inr rate"
      using rate getUsdRubRate_result [of st2 st' ev'] by (simp add: st2_def)
    have btc2: "fst (getBitcoinData ev' st2) = Inr btcData"
      using btc getBitcoinData_result [of ev' st2 st'] by simp
    have snap2: "compute_snapshot ev' rate btcData (previousTotalRubValue st2) = Inr s"
      using snap kept by (simp add: st2_def)
    from settle_update_fulfilled [OF status2 rate2 btc2 snap2] show ?thesis
      by (simp add: run2)
  qed
  with kept reset show ?thesis
    unfolding st'_def by blast
qed

text \<open>The state after a cycle on the network that is down, and the next calls.\<close>

lemma down_cycle:
  "snd (updateCryptoTable network_down page_after_cycle) =
     page_after_cycle
       \<lparr>tbody := Some (ErrorRow ErrorNoBitcoinData),
        updateTimeElement := Some (UpdateError ''12:00:00''),
        fetched := [USD_RUB_URL, BITCOIN_USD_URL, FALLBACK_BITCOIN_USD_URL],
        console := [ErrRate NetworkError, WarnPrimary NetworkError,
                    ErrFallback NetworkError, ErrCritical ErrorNoBitcoinData]\<rparr>"
  by (simp add: program_defs network_down_def page_after_cycle_def page_def host_env_def)

lemma up_rate:
  "fst (getUsdRubRate network_up (snd (updateCryptoTable network_down page_after_cycle))) =
     Inr (JNum (num_of_int 90))"
  unfolding down_cycle
  by (simp add: program_defs network_up_def page_after_cycle_def page_def host_env_def
        respond_urls ok_json_def rate_body_def)

lemma up_btc:
  "fst (getBitcoinData network_up (snd (updateCryptoTable network_down page_after_cycle))) =
     Inr \<lparr>priceUsd = JNum (num_of_int 50000), volumeBtc = JNum (num_of_int 1)\<rparr>"
  unfolding down_cycle
  by (simp add: program_defs network_up_def page_after_cycle_def page_def host_env_def
        respond_urls ok_json_def)

text \<open>
  A cycle on the network that is down keeps the total 4000000 and resets the flag;
  the cycle after it, on the network that is up, computes the total 4500000 and shows
  the change against 4000000 as positive.
\<close>

theorem failed_cycle_keeps_previous_total_witness:
  "previousTotalRubValue (snd (updateCryptoTable network_down page_after_cycle)) =
     Some (num_of_int 4000000)
   \<and> \<not> isFetching (snd (updateCryptoTable network_down page_after_cycle))
   \<and> previousTotalRubValue
       (snd (updateCryptoTable network_up
          (snd (updateCryptoTable network_down page_after_cycle)))) =
     Some (num_of_int 4500000)
   \<and> tbody
       (snd (updateCryptoTable network_up
          (snd (updateCryptoTable network_down page_after_cycle)))) =
     Some (DataRow ''#,##'' ''#,##'' ''#,##'' ''positive'' ''+#,##'')"
proof -
  have idle: "\<not> isFetching page_after_cycle"
    and body: "tbody page_after_cycle = Some InitialRows"
    and status: "updateTimeElement page_after_cycle = Some InitialText"
    and previous: "previousTotalRubValue page_after_cycle = Some (num_of_int 4000000)"
    by (simp_all add: page_after_cycle_def page_def)
  have "fst (getBitcoinData network_down page_after_cycle) = Inl ErrorNoBitcoinData"
    by (simp add: program_defs network_down_def host_env_def)
  then have rejected: "fst (getUsdRubRate network_down page_after_cycle) = Inl ErrorNoBitcoinData
      \<or> fst (getBitcoinData network_down page_after_cycle) = Inl ErrorNoBitcoinData" ..
  have snap: "compute_snapshot network_up (JNum (num_of_int 90))
       \<lparr>priceUsd = JNum (num_of_int 50000), volumeBtc = JNum (num_of_int 1)\<rparr>
       (previousTotalRubValue page_after_cycle) =
     Inr \<lparr>marketPriceRub = num_of_int 4500000, totalRubValue = num_of_int 4500000,
          changeRubValue = num_of_int 500000, changeClass = ''positive'',
          changeSign = ''+''\<rparr>"
    unfolding previous by (simp add: compute_snapshot_def js_mul_def Let_def example_arith)
  from failed_cycle_keeps_previous_total [OF idle body rejected] status up_rate up_btc snap
  show ?thesis
    unfolding previous
    by (auto simp: formatRub_def formatBtc_def network_up_def host_env_def host_format_def
          isNaN_def num_of_int_values)
qed

end
